theory Spec2Isabelle
  imports Complex_Main "HOL-Library.Multiset"
begin

section \<open>JavaScript strings\<close>

text \<open>
  Strings are modelled as \<^typ>\<open>string\<close>. The model covers the ASCII range:
  \<open>trim\<close> removes the ASCII white space of ECMAScript (TAB, LF, VT, FF, CR, SPACE) at
  both ends and \<open>toLowerCase\<close> maps \<open>A\<close>..\<open>Z\<close> to \<open>a\<close>..\<open>z\<close>. \<open>includes_str s t\<close> is
  \<open>s.includes(t)\<close>: \<open>t\<close> occurs in \<open>s\<close> as a contiguous substring.
\<close>

definition is_space :: "char \<Rightarrow> bool" where
  "is_space c = (of_char c \<in> {9::nat, 10, 11, 12, 13, 32})"

definition trim :: "string \<Rightarrow> string" where
  "trim s = rev (dropWhile is_space (rev (dropWhile is_space s)))"

definition lower_char :: "char \<Rightarrow> char" where
  "lower_char c =
     (let n = (of_char c :: nat) in if 65 \<le> n \<and> n \<le> 90 then char_of (n + 32) else c)"

definition toLowerCase :: "string \<Rightarrow> string" where
  "toLowerCase s = map lower_char s"

fun startsWith :: "string \<Rightarrow> string \<Rightarrow> bool" where
  "startsWith s [] = True"
| "startsWith [] (d # t) = False"
| "startsWith (c # s) (d # t) = (c = d \<and> startsWith s t)"

fun includes_str :: "string \<Rightarrow> string \<Rightarrow> bool" where
  "includes_str [] t = (t = [])"
| "includes_str (c # s) t = (startsWith (c # s) t \<or> includes_str s t)"

text \<open>\<open>Math.ceil(n / 2)\<close> for an array length \<open>n\<close>.\<close>

definition ceil_half :: "nat \<Rightarrow> nat" where
  "ceil_half n = nat \<lceil>(of_nat n :: rat) / 2\<rceil>"

section \<open>Text answers\<close>

text \<open>
  A row of \<open>assessment_text_answers\<close> as the services read it from the store. The
  nullable columns are options: \<open>None\<close> is JSON \<open>null\<close> or an absent field.
\<close>

record DbTextAnswerRow =
  correct_answer :: "string option"
  case_sensitive :: bool
  exact_match :: bool
  alternate_answers :: "string list option"
  keywords_col :: "string list option"

text \<open>\<open>AssessmentService.evaluateTextAnswer\<close> (standalone assessment flow).\<close>

definition evaluateTextAnswer :: "string option \<Rightarrow> DbTextAnswerRow option \<Rightarrow> bool" where
  "evaluateTextAnswer answer spec =
     (case spec of
        None \<Rightarrow> False
      | Some sp \<Rightarrow>
          let submitted = trim (case answer of None \<Rightarrow> [] | Some a \<Rightarrow> a) in
          if submitted = [] then False
          else
            let correctAnswer = trim (case correct_answer sp of None \<Rightarrow> [] | Some c \<Rightarrow> c) in
            if correctAnswer = [] then False
            else if exact_match sp then
              (if case_sensitive sp then submitted = correctAnswer
               else toLowerCase submitted = toLowerCase correctAnswer)
            else
              let normalize = (\<lambda>v. if case_sensitive sp then v else toLowerCase v);
                  answerToCheck = normalize submitted;
                  correctToCheck = normalize correctAnswer
              in
                if includes_str answerToCheck correctToCheck then True
                else
                  let alternates = (case alternate_answers sp of None \<Rightarrow> [] | Some as \<Rightarrow> as) in
                  if list_ex (\<lambda>alt. includes_str answerToCheck (normalize alt)) alternates then True
                  else
                    let kws = (case keywords_col sp of None \<Rightarrow> [] | Some ks \<Rightarrow> ks) in
                    if length kws = 0 then False
                    else
                      let keywordMatches =
                            filter (\<lambda>keyword. includes_str answerToCheck (normalize keyword)) kws
                      in ceil_half (length kws) \<le> length keywordMatches)"

text \<open>
  The text branch of \<open>StudentAssessmentService.validateAndScoreResponse\<close>, from
  \<open>if (responseDto.text_answer)\<close> to the assignment of \<open>isCorrect\<close>: the first argument is
  \<open>responseDto.text_answer\<close>, the second the first row the store returned for the
  question. Reading a property of \<open>null\<close> raises a \<open>TypeError\<close>.
\<close>

datatype js_error = TypeError

definition scoreTextAnswer :: "string option \<Rightarrow> DbTextAnswerRow option \<Rightarrow> js_error + bool" where
  "scoreTextAnswer text_answer textAnswer =
     (case text_answer of
        None \<Rightarrow> Inr False
      | Some ta \<Rightarrow>
          if ta = [] then Inr False
          else
            (case textAnswer of
               None \<Rightarrow> Inr False
             | Some row \<Rightarrow>
                 (case correct_answer row of
                    None \<Rightarrow> Inl TypeError
                  | Some ca \<Rightarrow>
                      let studentAnswer = trim ta; correctAnswer = trim ca in
                      if exact_match row then
                        Inr (if case_sensitive row then studentAnswer = correctAnswer
                             else toLowerCase studentAnswer = toLowerCase correctAnswer)
                      else
                        let answerToCheck =
                              (if case_sensitive row then studentAnswer else toLowerCase studentAnswer);
                            correctToCheck =
                              (if case_sensitive row then correctAnswer else toLowerCase correctAnswer)
                        in
                          if includes_str answerToCheck correctToCheck then Inr True
                          else
                            (case alternate_answers row of
                               None \<Rightarrow> Inl TypeError
                             | Some alts \<Rightarrow>
                                 if list_ex (\<lambda>alt. includes_str answerToCheck
                                        (if case_sensitive row then alt else toLowerCase alt)) alts
                                 then Inr True
                                 else
                                   (case keywords_col row of
                                      None \<Rightarrow> Inl TypeError
                                    | Some kws \<Rightarrow>
                                        if 0 < length kws then
                                          let keywordMatches =
                                                filter (\<lambda>keyword. includes_str answerToCheck
                                                  (if case_sensitive row then keyword
                                                   else toLowerCase keyword)) kws
                                          in Inr (ceil_half (length kws) \<le> length keywordMatches)
                                        else Inr False)))))"

subsection \<open>The matching rules in the words of the specification\<close>

definition normalized :: "DbTextAnswerRow \<Rightarrow> string \<Rightarrow> string" where
  "normalized sp v = (if case_sensitive sp then v else toLowerCase v)"

definition canonical :: "DbTextAnswerRow \<Rightarrow> string" where
  "canonical sp = (case correct_answer sp of None \<Rightarrow> [] | Some c \<Rightarrow> c)"

definition alternates_of :: "DbTextAnswerRow \<Rightarrow> string list" where
  "alternates_of sp = (case alternate_answers sp of None \<Rightarrow> [] | Some as \<Rightarrow> as)"

definition keywords_of :: "DbTextAnswerRow \<Rightarrow> string list" where
  "keywords_of sp = (case keywords_col sp of None \<Rightarrow> [] | Some ks \<Rightarrow> ks)"

text \<open>The submission matches neither the canonical answer nor an alternate answer.\<close>

definition no_direct_match :: "DbTextAnswerRow \<Rightarrow> string \<Rightarrow> bool" where
  "no_direct_match sp a =
     (\<not> includes_str (normalized sp (trim a)) (normalized sp (trim (canonical sp))) \<and>
      \<not> list_ex (\<lambda>alt. includes_str (normalized sp (trim a)) (normalized sp alt)) (alternates_of sp))"

text \<open>The majority-of-keywords rule: at least half of the keywords, rounded up, occur.\<close>

definition keyword_majority :: "DbTextAnswerRow \<Rightarrow> string \<Rightarrow> bool" where
  "keyword_majority sp a =
     (keywords_of sp \<noteq> [] \<and>
      (length (keywords_of sp) + 1) div 2 \<le>
        length (filter (\<lambda>k. includes_str (normalized sp (trim a)) (normalized sp k)) (keywords_of sp)))"

text \<open>Equality with the canonical answer under the case-sensitivity flag.\<close>

definition exact_equal :: "DbTextAnswerRow \<Rightarrow> string \<Rightarrow> bool" where
  "exact_equal sp a =
     (if case_sensitive sp then trim a = trim (canonical sp)
      else toLowerCase (trim a) = toLowerCase (trim (canonical sp)))"

section \<open>Standalone assessment flow: the score of \<open>finish\<close>\<close>

text \<open>
  JavaScript numbers are IEEE 754 doubles. A double is modelled by the rational it
  denotes; \<open>to_double x\<close> is the double nearest to \<open>x\<close>, ties to the even significand
  (53 significant bits; the exponent range is not bounded, which is exact for every
  value between \<open>2^-1022\<close> and \<open>2^1023\<close>). \<open>scale_up\<close> and \<open>scale_down\<close> bring the argument
  into the binade \<open>[2^52, 2^53)\<close>, where the doubles are the integers.
\<close>

definition round_half_even :: "rat \<Rightarrow> int" where
  "round_half_even x =
     (let f = \<lfloor>x\<rfloor>; r = x - of_int f
      in if r < 1 / 2 then f else if 1 / 2 < r then f + 1 else if even f then f else f + 1)"

function scale_up :: "rat \<Rightarrow> rat" where
  "scale_up x =
     (if 0 < x \<and> x < 2 ^ 52 then scale_up (2 * x) / 2 else of_int (round_half_even x))"
  by pat_completeness auto
termination
proof (relation "measure (\<lambda>x. nat \<lceil>2 ^ 52 / x\<rceil>)")
  show "wf (measure (\<lambda>x::rat. nat \<lceil>2 ^ 52 / x\<rceil>))" by simp
next
  fix x :: rat
  assume a: "0 < x \<and> x < 2 ^ 52"
  define y where "y = 2 ^ 52 / x"
  have y1: "1 < y" using a by (simp add: y_def)
  have c2: "2 \<le> \<lceil>y\<rceil>" using y1 by linarith
  have "y \<le> of_int \<lceil>y\<rceil>" by simp
  moreover have "(2::rat) \<le> of_int \<lceil>y\<rceil>" using c2 by linarith
  ultimately have "y / 2 \<le> of_int \<lceil>y\<rceil> - 1" by linarith
  then have "y / 2 \<le> of_int (\<lceil>y\<rceil> - 1)" by simp
  then have less: "\<lceil>y / 2\<rceil> < \<lceil>y\<rceil>" by (simp add: ceiling_less_iff)
  have "2 ^ 52 / (2 * x) = y / 2" by (simp add: y_def)
  moreover note less
  moreover have "0 < \<lceil>y\<rceil>" using y1 by linarith
  ultimately show "(2 * x, x) \<in> measure (\<lambda>x. nat \<lceil>2 ^ 52 / x\<rceil>)"
    by (simp add: y_def)
qed

function scale_down :: "rat \<Rightarrow> rat" where
  "scale_down x = (if 2 ^ 53 \<le> x then scale_down (x / 2) * 2 else scale_up x)"
  by pat_completeness auto
termination
proof (relation "measure (\<lambda>x. nat \<lceil>x\<rceil>)")
  show "wf (measure (\<lambda>x::rat. nat \<lceil>x\<rceil>))" by simp
next
  fix x :: rat
  assume a: "2 ^ 53 \<le> x"
  have x2: "2 \<le> x" using a by simp
  have c2: "2 \<le> \<lceil>x\<rceil>" using x2 by linarith
  have "x \<le> of_int \<lceil>x\<rceil>" by simp
  moreover have "(2::rat) \<le> of_int \<lceil>x\<rceil>" using c2 by linarith
  ultimately have "x / 2 \<le> of_int \<lceil>x\<rceil> - 1" by linarith
  then have "x / 2 \<le> of_int (\<lceil>x\<rceil> - 1)" by simp
  then have "\<lceil>x / 2\<rceil> < \<lceil>x\<rceil>" by (simp add: ceiling_less_iff)
  then show "(x / 2, x) \<in> measure (\<lambda>x. nat \<lceil>x\<rceil>)" using c2 by simp
qed

declare scale_up.simps [simp del] scale_down.simps [simp del]

definition to_double :: "rat \<Rightarrow> rat" where
  "to_double x = (if x < 0 then - scale_down (- x) else scale_down x)"

text \<open>\<open>Math.round\<close>: the nearest integer, a tie going up.\<close>

definition Math_round :: "rat \<Rightarrow> int" where
  "Math_round x = \<lfloor>x + 1 / 2\<rfloor>"

definition PASSING_SCORE :: int where
  "PASSING_SCORE = 72"

record finish_result =
  score :: int
  passed :: bool
  total :: nat
  correct :: nat

text \<open>
  \<open>AssessmentService.finish\<close> of the store-backed service, from the count of the correct
  responses on: the argument is the \<open>correct\<close> flag of each row of \<open>toSave\<close>, one per
  submitted response. The score is \<open>Math.round((correctCount / totalQuestions) * 100)\<close>,
  a division and a multiplication of doubles.
\<close>

definition finish_summary :: "bool list \<Rightarrow> finish_result" where
  "finish_summary flags =
     (let correctCount = length (filter (\<lambda>c. c) flags);
          totalQuestions = length flags;
          sc = (if 0 < totalQuestions
                then Math_round (to_double
                       (to_double (of_nat correctCount / of_nat totalQuestions) * 100))
                else 0)
      in \<lparr>score = sc, passed = (PASSING_SCORE \<le> sc), total = totalQuestions,
          correct = correctCount\<rparr>)"

text \<open>
  \<open>AssessmentService.finish\<close> of the service over the fixed list \<open>QUESTIONS\<close> of 25
  questions: the score divides by \<open>QUESTIONS.length\<close> and the pass mark is 18 correct
  answers.
\<close>

definition QUESTIONS_length :: nat where
  "QUESTIONS_length = 25"

definition finish_summary_fixed :: "bool list \<Rightarrow> finish_result" where
  "finish_summary_fixed flags =
     (let correctCount = length (filter (\<lambda>c. c) flags)
      in \<lparr>score = Math_round (to_double
                     (to_double (of_nat correctCount / of_nat QUESTIONS_length) * 100)),
          passed = (18 \<le> correctCount), total = QUESTIONS_length, correct = correctCount\<rparr>)"

text \<open>The percentage in the words of the specification: \<open>round(100 \<times> correct / total)\<close>.\<close>

definition percentage_rounded :: "nat \<Rightarrow> nat \<Rightarrow> int" where
  "percentage_rounded c t = (if t = 0 then 0 else \<lfloor>(100 * of_nat c / of_nat t :: rat) + 1 / 2\<rfloor>)"

section \<open>Shuffling\<close>

text \<open>
  Arrays are objects: a heap is the list of the arrays allocated so far and a reference
  is an index into it. \<open>shuffleArray\<close> allocates the copy \<open>[...array]\<close> and swaps in the
  copy. The random source is the function \<open>pick\<close>: \<open>pick i\<close> is the value of
  \<open>Math.floor(Math.random() * (i + 1))\<close> drawn at index \<open>i\<close>, a number from \<open>0\<close> to \<open>i\<close>.
\<close>

type_synonym 'a heap = "'a list list"

fun shuffle_swaps :: "(nat \<Rightarrow> nat) \<Rightarrow> nat \<Rightarrow> nat \<Rightarrow> 'a heap \<Rightarrow> 'a heap" where
  "shuffle_swaps pick r 0 h = h"
| "shuffle_swaps pick r (Suc i) h =
     (let j = pick (Suc i); shuffled = h ! r
      in shuffle_swaps pick r i
           (h[r := shuffled[Suc i := shuffled ! j, j := shuffled ! Suc i]]))"

definition shuffleArray :: "(nat \<Rightarrow> nat) \<Rightarrow> nat \<Rightarrow> 'a heap \<Rightarrow> nat \<times> 'a heap" where
  "shuffleArray pick array h =
     (let r = length h; h1 = h @ [h ! array]
      in (r, shuffle_swaps pick r (length (h1 ! r) - 1) h1))"

text \<open>The contents of the array that \<open>shuffleArray\<close> returns for an array holding \<open>xs\<close>.\<close>

definition shuffled_of :: "(nat \<Rightarrow> nat) \<Rightarrow> 'a list \<Rightarrow> 'a list" where
  "shuffled_of pick xs = (case shuffleArray pick 0 [xs] of (r, h) \<Rightarrow> h ! r)"

section \<open>Rows of the store and student-facing payloads\<close>

record option_row =
  opt_id :: string
  opt_question_id :: string
  option_text :: string
  option_image_url :: "string option"
  is_correct :: bool
  opt_explanation :: "string option"

record prepared_option =
  p_id :: string
  p_option_text :: string
  p_option_image_url :: "string option"

text \<open>\<open>StudentAssessmentService.prepareQuestionOptions\<close>.\<close>

definition prepareQuestionOptions ::
  "(nat \<Rightarrow> nat) \<Rightarrow> option_row list \<Rightarrow> bool \<Rightarrow> prepared_option list" where
  "prepareQuestionOptions pick opts randomize =
     (let preparedOptions =
            map (\<lambda>opt. \<lparr>p_id = opt_id opt, p_option_text = option_text opt,
                        p_option_image_url = option_image_url opt\<rparr>) opts
      in if randomize then shuffled_of pick preparedOptions else preparedOptions)"

record question_row =
  q_id :: string
  question_type :: string
  question_text :: string
  question_image_url :: "string option"
  explanation :: "string option"
  difficulty_level :: string
  points_value :: "int option"
  time_limit_seconds :: "int option"

text \<open>
  A question with its options embedded, as \<open>getQuestionsForSession\<close> builds it:
  \<open>sq_row\<close> holds the columns that the spread \<open>...tq.assessment_questions\<close> copies.
\<close>

record session_question =
  sq_row :: question_row
  options :: "option_row list"

record template_row =
  t_id :: string
  is_active :: bool
  is_public :: bool
  max_attempts :: "nat option"
  time_limit_minutes :: int
  randomize_questions :: bool
  randomize_options :: bool
  allow_retakes :: bool
  passing_percentage :: int

datatype session_status = in_progress | completed | expired

text \<open>Instants are milliseconds since the epoch, as \<open>Date.getTime()\<close> gives them.\<close>

type_synonym time = int

record session_row =
  s_id :: string
  student_id :: string
  template_id :: string
  session_token :: string
  attempt_number :: nat
  status :: session_status
  started_at :: time
  expires_at :: "time option"
  completed_at :: "time option"
  total_questions :: nat
  correct_answers :: nat
  total_score :: int
  percentage_score :: int
  session_passed :: bool

record response_row =
  r_id :: nat
  r_session_id :: string
  r_question_id :: string
  selected_option_id :: "string option"
  text_answer :: "string option"
  r_is_correct :: bool
  points_earned :: int
  time_spent_seconds :: int
  answered_at :: time

record SubmitResponseDto =
  dto_session_token :: string
  dto_question_id :: string
  dto_selected_option_id :: "string option"
  dto_text_answer :: "string option"
  dto_time_spent_seconds :: int

section \<open>The store\<close>

text \<open>
  The tables the student assessment service reads and writes. \<open>template_questions\<close>
  holds the links (template id, question id) in \<open>order_index\<close> order and
  \<open>question_options\<close> the options in \<open>order_index\<close> order.
\<close>

record store =
  templates :: "template_row list"
  template_questions :: "(string \<times> string) list"
  questions :: "question_row list"
  question_options :: "option_row list"
  text_answers :: "(string \<times> DbTextAnswerRow) list"
  sessions :: "session_row list"
  responses :: "response_row list"

record 'a response =
  res_status :: nat
  json :: 'a

definition res_ok :: "'a response \<Rightarrow> bool" where
  "res_ok res = (200 \<le> res_status res \<and> res_status res \<le> 299)"

text \<open>
  Modelled from the spec: the relational store behind the filter-query REST interface
  is an external collaborator and no part of the sources. A read is answered with
  status 200 and the rows that match the filters.
\<close>

definition rest_get :: "'a list \<Rightarrow> 'a list response" where
  "rest_get rows = \<lparr>res_status = 200, json = rows\<rparr>"

text \<open>
  Modelled from the spec: the insert into the response table, which is not part of the
  sources. The table is unique on (session, question): the store answers a second row
  for the same pair with 409 and keeps the table as it is; otherwise it appends the row
  under a fresh id and answers 201 with the stored row.
\<close>

definition post_response :: "response_row \<Rightarrow> store \<Rightarrow> response_row list response \<times> store" where
  "post_response row s =
     (if list_ex (\<lambda>r. r_session_id r = r_session_id row \<and> r_question_id r = r_question_id row)
           (responses s)
      then (\<lparr>res_status = 409, json = []\<rparr>, s)
      else
        (let saved = row\<lparr>r_id := length (responses s)\<rparr>
         in (\<lparr>res_status = 201, json = [saved]\<rparr>, s\<lparr>responses := responses s @ [saved]\<rparr>)))"

text \<open>
  Modelled from the spec: the insert into the session table, which is not part of the
  sources. The store keeps the new row and answers 201 with it; the columns that the
  payload of \<open>startAssessment\<close> leaves out take their defaults: the status is
  \<open>in_progress\<close>, \<open>total_questions\<close> the number of questions of the template, and the
  results are empty.
\<close>

definition post_session :: "session_row \<Rightarrow> store \<Rightarrow> session_row list response \<times> store" where
  "post_session row s =
     (let stored = row\<lparr>status := in_progress, completed_at := None,
            total_questions :=
              length (filter (\<lambda>(t, q). t = template_id row) (template_questions s)),
            correct_answers := 0, total_score := 0, percentage_score := 0,
            session_passed := False\<rparr>
      in (\<lparr>res_status = 201, json = [stored]\<rparr>, s\<lparr>sessions := sessions s @ [stored]\<rparr>))"

text \<open>The update \<open>PATCH student_assessment_sessions?id=eq.sessionId\<close> with a new status.\<close>

definition patch_session_status :: "string \<Rightarrow> session_status \<Rightarrow> store \<Rightarrow> store" where
  "patch_session_status sessionId st s =
     s\<lparr>sessions := map (\<lambda>r. if s_id r = sessionId then r\<lparr>status := st\<rparr> else r) (sessions s)\<rparr>"

text \<open>
  Modelled from the spec: the database function \<open>calculate_session_results\<close>, which is
  not part of the sources. On finish it aggregates the responses of the session:
  \<open>correct_answers\<close> counts the correct ones, \<open>total_score\<close> sums the points earned,
  \<open>percentage_score\<close> is \<open>round(100 \<times> correct_answers / total_questions)\<close>, \<open>passed\<close>
  compares it with the passing percentage of the template; the status becomes
  \<open>completed\<close> and \<open>completed_at\<close> the current instant.
\<close>

definition calculate_session_results :: "time \<Rightarrow> string \<Rightarrow> store \<Rightarrow> store" where
  "calculate_session_results now sessionId s =
     s\<lparr>sessions :=
         map (\<lambda>r. if s_id r = sessionId then
                    (let rs = filter (\<lambda>x. r_session_id x = sessionId) (responses s);
                         c = length (filter r_is_correct rs);
                         pct = percentage_rounded c (total_questions r);
                         pass = (case filter (\<lambda>t. t_id t = template_id r) (templates s) of
                                   [] \<Rightarrow> False
                                 | t # _ \<Rightarrow> passing_percentage t \<le> pct)
                     in r\<lparr>status := completed, completed_at := Some now, correct_answers := c,
                          total_score := sum_list (map points_earned rs),
                          percentage_score := pct, session_passed := pass\<rparr>)
                  else r) (sessions s)\<rparr>"

section \<open>The student assessment service\<close>

datatype http_exception =
    InternalServerErrorException string
  | NotFoundException string
  | ForbiddenException string
  | BadRequestException string
  | UncaughtTypeError
  | UncaughtRangeError

text \<open>
  The message of an exception is its fixed text: a status code, an id or a limit that
  the source splices into the message is left out. \<open>getStatus\<close> is the HTTP status the
  framework answers with: \<open>HttpException.getStatus()\<close>, and 500 for an exception that
  is no \<open>HttpException\<close>.
\<close>

fun getStatus :: "http_exception \<Rightarrow> nat" where
  "getStatus (InternalServerErrorException m) = 500"
| "getStatus (NotFoundException m) = 404"
| "getStatus (ForbiddenException m) = 403"
| "getStatus (BadRequestException m) = 400"
| "getStatus UncaughtTypeError = 500"
| "getStatus UncaughtRangeError = 500"

definition getAssessmentTemplate :: "string \<Rightarrow> store \<Rightarrow> http_exception + template_row" where
  "getAssessmentTemplate templateId s =
     (let res = rest_get (filter (\<lambda>t. t_id t = templateId) (templates s)) in
      if \<not> res_ok res then Inl (InternalServerErrorException ''Failed to fetch assessment template'')
      else
        (case json res of
           [] \<Rightarrow> Inl (NotFoundException ''Assessment template not found'')
         | template # _ \<Rightarrow>
             if \<not> is_active template \<or> \<not> is_public template
             then Inl (ForbiddenException ''This assessment is not available'')
             else Inr template))"

definition getActiveSessionsForTemplate :: "string \<Rightarrow> string \<Rightarrow> store \<Rightarrow> session_row list" where
  "getActiveSessionsForTemplate templateId studentId s =
     (let res = rest_get (filter (\<lambda>r. student_id r = studentId \<and> template_id r = templateId \<and>
                                      status r = in_progress) (sessions s))
      in if res_ok res then json res else [])"

definition getAttemptCount :: "string \<Rightarrow> string \<Rightarrow> store \<Rightarrow> nat" where
  "getAttemptCount templateId studentId s =
     (let res = rest_get [length (filter (\<lambda>r. student_id r = studentId \<and> template_id r = templateId)
                                    (sessions s))]
      in if res_ok res then (case json res of [] \<Rightarrow> 0 | cnt # _ \<Rightarrow> cnt) else 0)"

text \<open>
  \<open>StudentAssessmentController.validateStudentCanStartAssessment\<close>. A \<open>max_attempts\<close> of
  \<open>null\<close> or \<open>0\<close> is falsy and sets no limit.
\<close>

definition validateStudentCanStartAssessment :: "string \<Rightarrow> string \<Rightarrow> store \<Rightarrow> http_exception + unit" where
  "validateStudentCanStartAssessment templateId studentId s =
     (case getAssessmentTemplate templateId s of
        Inl e \<Rightarrow> Inl e
      | Inr template \<Rightarrow>
          if \<not> is_active template
          then Inl (ForbiddenException ''This assessment is not currently available'')
          else if 0 < length (getActiveSessionsForTemplate templateId studentId s)
          then Inl (BadRequestException ''You already have an active session for this assessment'')
          else
            (case max_attempts template of
               None \<Rightarrow> Inr ()
             | Some m \<Rightarrow>
                 if m = 0 then Inr ()
                 else if m \<le> getAttemptCount templateId studentId s
                 then Inl (ForbiddenException
                        ''You have reached the maximum number of attempts for this assessment'')
                 else Inr ()))"

text \<open>
  What \<open>getAssessmentSession\<close> returns: \<open>sv_session\<close> holds the columns of the spread
  \<open>...session\<close> and \<open>assessment_templates\<close> the embedded template of the select.
\<close>

record session_view =
  sv_session :: session_row
  assessment_templates :: "template_row option"
  sv_responses :: "response_row list"
  time_remaining :: int
  is_expired :: bool

definition expireSession :: "string \<Rightarrow> store \<Rightarrow> store" where
  "expireSession sessionId s = patch_session_status sessionId expired s"

definition getAssessmentSession ::
  "time \<Rightarrow> string \<Rightarrow> string \<Rightarrow> store \<Rightarrow> (http_exception + session_view) \<times> store" where
  "getAssessmentSession now sessionToken studentId s =
     (let sessionRes = rest_get (filter (\<lambda>r. session_token r = sessionToken \<and>
                                            student_id r = studentId) (sessions s)) in
      if \<not> res_ok sessionRes
      then (Inl (InternalServerErrorException ''Failed to fetch assessment session''), s)
      else
        (case json sessionRes of
           [] \<Rightarrow> (Inl (NotFoundException ''Assessment session not found''), s)
         | session # _ \<Rightarrow>
             if status session = expired \<or>
                (case expires_at session of None \<Rightarrow> False | Some e \<Rightarrow> e < now)
             then (Inl (ForbiddenException ''Assessment session has expired''),
                   if status session \<noteq> expired then expireSession (s_id session) s else s)
             else
               (let responsesRes = rest_get (filter (\<lambda>r. r_session_id r = s_id session)
                                              (responses s));
                    expiry = (case expires_at session of None \<Rightarrow> 0 | Some e \<Rightarrow> e)
                in (Inr \<lparr>sv_session = session,
                         assessment_templates =
                           (case filter (\<lambda>t. t_id t = template_id session) (templates s) of
                              [] \<Rightarrow> None | t # _ \<Rightarrow> Some t),
                         sv_responses = json responsesRes,
                         time_remaining = max 0 ((expiry - now) div 1000),
                         is_expired = (expiry < now)\<rparr>, s))))"

definition getQuestionsForSession ::
  "string \<Rightarrow> bool \<Rightarrow> (nat \<Rightarrow> nat) \<Rightarrow> store \<Rightarrow> http_exception + session_question list" where
  "getQuestionsForSession templateId randomize pick s =
     (let questionsRes =
            rest_get (map (\<lambda>(t, q).
                             (case filter (\<lambda>x. q_id x = q) (questions s) of
                                [] \<Rightarrow> None
                              | x # _ \<Rightarrow>
                                  Some (x, filter (\<lambda>opt. opt_question_id opt = q) (question_options s))))
                        (filter (\<lambda>(t, q). t = templateId) (template_questions s))) in
      if \<not> res_ok questionsRes
      then Inl (InternalServerErrorException ''Failed to fetch template questions'')
      else
        (case those (json questionsRes) of
           None \<Rightarrow> Inl UncaughtTypeError
         | Some templateQuestions \<Rightarrow>
             (let qs = map (\<lambda>(x, opts). \<lparr>sq_row = x, options = opts\<rparr>) templateQuestions
              in Inr (if randomize then shuffled_of pick qs else qs))))"

record start_question =
  st_id :: string
  question_number :: nat
  st_question_type :: string
  st_question_text :: string
  st_question_image_url :: "string option"
  st_difficulty_level :: string
  st_points_value :: "int option"
  st_time_limit_seconds :: "int option"
  st_options :: "prepared_option list"

record start_payload =
  sp_session_token :: string
  sp_session_id :: string
  sp_template :: template_row
  sp_expires_at :: time
  sp_questions :: "start_question list"
  sp_total_questions :: nat
  sp_attempt_number :: nat

text \<open>
  The \<open>questions\<close> of the object that \<open>startAssessment\<close> returns. Each call of
  \<open>shuffleArray\<close> draws afresh: \<open>rand (Suc index)\<close> is the random source of the call for
  the options of the question at \<open>index\<close>.
\<close>

definition start_questions ::
  "(nat \<Rightarrow> nat \<Rightarrow> nat) \<Rightarrow> bool \<Rightarrow> session_question list \<Rightarrow> start_question list" where
  "start_questions rand randomize_opts qs =
     map (\<lambda>(q, index).
            \<lparr>st_id = q_id (sq_row q), question_number = index + 1,
             st_question_type = question_type (sq_row q),
             st_question_text = question_text (sq_row q),
             st_question_image_url = question_image_url (sq_row q),
             st_difficulty_level = difficulty_level (sq_row q),
             st_points_value = points_value (sq_row q),
             st_time_limit_seconds = time_limit_seconds (sq_row q),
             st_options = prepareQuestionOptions (rand (Suc index)) (options q) randomize_opts\<rparr>)
         (zip qs [0..<length qs])"

text \<open>
  \<open>StudentAssessmentService.startAssessment\<close>. \<open>sessionToken\<close> is the value of \<open>uuidv4()\<close>,
  \<open>newId\<close> the id the store gives the new row and \<open>rand 0\<close> the random source of the
  shuffle of the questions. \<open>setMinutes\<close> adds the time limit to the current instant;
  a \<open>Date\<close> more than 8640000000000000 ms from the epoch is invalid and its
  \<open>toISOString()\<close>, called while the payload is built, raises a \<open>RangeError\<close>.
\<close>

definition startAssessment ::
  "time \<Rightarrow> string \<Rightarrow> string \<Rightarrow> (nat \<Rightarrow> nat \<Rightarrow> nat) \<Rightarrow> string \<Rightarrow> string \<Rightarrow> store
     \<Rightarrow> (http_exception + start_payload) \<times> store" where
  "startAssessment now sessionToken newId rand templateId studentId s =
     (case getAssessmentTemplate templateId s of
        Inl e \<Rightarrow> (Inl e, s)
      | Inr template \<Rightarrow>
          (let attempts = map attempt_number
                            (filter (\<lambda>r. student_id r = studentId \<and> template_id r = templateId)
                               (sessions s));
               nextAttemptNumber = (if 0 < length attempts then fold max attempts 0 + 1 else 1);
               expiresAt = now + time_limit_minutes template * 60000;
               sessionPayload =
                 \<lparr>s_id = newId, student_id = studentId, template_id = templateId,
                  session_token = sessionToken, attempt_number = nextAttemptNumber,
                  status = in_progress, started_at = now, expires_at = Some expiresAt,
                  completed_at = None, total_questions = 0, correct_answers = 0,
                  total_score = 0, percentage_score = 0, session_passed = False\<rparr>
           in
             if expiresAt < - 8640000000000000 \<or> 8640000000000000 < expiresAt
             then (Inl UncaughtRangeError, s)
             else
             (case post_session sessionPayload s of
                (sessionRes, s1) \<Rightarrow>
                  if \<not> res_ok sessionRes
                  then (Inl (InternalServerErrorException ''Failed to start assessment''), s1)
                  else
                    (case json sessionRes of
                       [] \<Rightarrow> (Inl UncaughtTypeError, s1)
                     | session # _ \<Rightarrow>
                         (case getQuestionsForSession templateId (randomize_questions template)
                                 (rand 0) s1 of
                            Inl e \<Rightarrow> (Inl e, s1)
                          | Inr qs \<Rightarrow>
                              (Inr \<lparr>sp_session_token = sessionToken, sp_session_id = s_id session,
                                    sp_template = template, sp_expires_at = expiresAt,
                                    sp_questions =
                                      start_questions rand (randomize_options template) qs,
                                    sp_total_questions = length qs,
                                    sp_attempt_number = nextAttemptNumber\<rparr>, s1))))))"

text \<open>\<open>StudentAssessmentController.startAssessment\<close>: the policy check, then the service.\<close>

definition startAssessment_route ::
  "time \<Rightarrow> string \<Rightarrow> string \<Rightarrow> (nat \<Rightarrow> nat \<Rightarrow> nat) \<Rightarrow> string \<Rightarrow> string \<Rightarrow> store
     \<Rightarrow> (http_exception + start_payload) \<times> store" where
  "startAssessment_route now sessionToken newId rand templateId studentId s =
     (case validateStudentCanStartAssessment templateId studentId s of
        Inl e \<Rightarrow> (Inl e, s)
      | Inr _ \<Rightarrow> startAssessment now sessionToken newId rand templateId studentId s)"

text \<open>
  What \<open>getQuestionForSession\<close> returns: \<open>qp_question\<close> holds the columns of the spread
  \<open>...question\<close>, a row of \<open>assessment_questions\<close> selected with \<open>*\<close>.
\<close>

record question_payload =
  qp_question :: question_row
  qp_options :: "prepared_option list"
  existing_response :: "response_row option"
  qp_time_remaining :: int
  qp_questions_answered :: nat
  qp_total_questions :: nat

definition getQuestionForSession ::
  "time \<Rightarrow> (nat \<Rightarrow> nat) \<Rightarrow> string \<Rightarrow> string \<Rightarrow> string \<Rightarrow> store
     \<Rightarrow> (http_exception + question_payload) \<times> store" where
  "getQuestionForSession now pick sessionToken questionId studentId s =
     (case getAssessmentSession now sessionToken studentId s of
        (Inl e, s1) \<Rightarrow> (Inl e, s1)
      | (Inr session, s1) \<Rightarrow>
          (let questionRes = rest_get (filter (\<lambda>q. q_id q = questionId) (questions s1));
               optionsRes = rest_get (filter (\<lambda>opt. opt_question_id opt = questionId)
                                        (question_options s1)) in
           if \<not> res_ok questionRes
           then (Inl (InternalServerErrorException ''Failed to fetch question''), s1)
           else
             (case json questionRes of
                [] \<Rightarrow> (Inl (NotFoundException ''Question not found''), s1)
              | question # _ \<Rightarrow>
                  (let existingResponse =
                         json (rest_get (filter (\<lambda>r. r_session_id r = s_id (sv_session session) \<and>
                                                    r_question_id r = questionId) (responses s1)))
                   in
                     (case assessment_templates session of
                        None \<Rightarrow> (Inl UncaughtTypeError, s1)
                      | Some template \<Rightarrow>
                          (Inr \<lparr>qp_question = question,
                                qp_options = prepareQuestionOptions pick (json optionsRes)
                                               (randomize_options template),
                                existing_response =
                                  (case existingResponse of [] \<Rightarrow> None | r # _ \<Rightarrow> Some r),
                                qp_time_remaining = time_remaining session,
                                qp_questions_answered = length (sv_responses session),
                                qp_total_questions = total_questions (sv_session session)\<rparr>,
                           s1))))))"

text \<open>\<open>x || null\<close> for a string: the empty string is falsy.\<close>

definition or_null :: "string option \<Rightarrow> string option" where
  "or_null x = (case x of None \<Rightarrow> None | Some v \<Rightarrow> if v = [] then None else Some v)"

text \<open>\<open>question.points_value || 1\<close>.\<close>

definition points_or_one :: "question_row \<Rightarrow> int" where
  "points_or_one question =
     (case points_value question of None \<Rightarrow> 1 | Some v \<Rightarrow> if v = 0 then 1 else v)"

text \<open>\<open>StudentAssessmentService.validateAndScoreResponse\<close>; the text branch is
  \<open>scoreTextAnswer\<close>.\<close>

definition validateAndScoreResponse ::
  "question_row \<Rightarrow> SubmitResponseDto \<Rightarrow> store \<Rightarrow> js_error + bool \<times> int" where
  "validateAndScoreResponse question responseDto s =
     (if question_type question = ''mcq'' \<or> question_type question = ''image_mcq'' then
        (case or_null (dto_selected_option_id responseDto) of
           None \<Rightarrow> Inr (False, 0)
         | Some sel \<Rightarrow>
             (case filter (\<lambda>opt. opt_id opt = sel \<and> opt_question_id opt = q_id question)
                     (question_options s) of
                [] \<Rightarrow> Inr (False, 0)
              | opt # _ \<Rightarrow>
                  if is_correct opt then Inr (True, points_or_one question) else Inr (False, 0)))
      else if question_type question \<in> set [''text'', ''image_text'', ''short_text'', ''fill_blank'']
      then
        (case scoreTextAnswer (dto_text_answer responseDto)
                (case filter (\<lambda>(q, row). q = q_id question) (text_answers s) of
                   [] \<Rightarrow> None | (q, row) # _ \<Rightarrow> Some row) of
           Inl e \<Rightarrow> Inl e
         | Inr isCorrect \<Rightarrow> Inr (isCorrect, if isCorrect then points_or_one question else 0))
      else Inr (False, 0))"

record submit_result =
  response_id :: nat
  sr_is_correct :: bool
  sr_points_earned :: int
  sr_explanation :: "string option"
  sr_questions_answered :: nat
  sr_total_questions :: nat
  sr_time_remaining :: int

definition submitResponse ::
  "time \<Rightarrow> SubmitResponseDto \<Rightarrow> string \<Rightarrow> store \<Rightarrow> (http_exception + submit_result) \<times> store" where
  "submitResponse now responseDto studentId s =
     (case getAssessmentSession now (dto_session_token responseDto) studentId s of
        (Inl e, s1) \<Rightarrow> (Inl e, s1)
      | (Inr session, s1) \<Rightarrow>
          if status (sv_session session) \<noteq> in_progress
          then (Inl (BadRequestException ''Cannot submit response for non-active session''), s1)
          else
            (case json (rest_get (filter (\<lambda>q. q_id q = dto_question_id responseDto)
                                    (questions s1))) of
               [] \<Rightarrow> (Inl (NotFoundException ''Question not found''), s1)
             | question # _ \<Rightarrow>
                 (case validateAndScoreResponse question responseDto s1 of
                    Inl e \<Rightarrow> (Inl UncaughtTypeError, s1)
                  | Inr (isCorrect, pointsEarned) \<Rightarrow>
                      (let responsePayload =
                             \<lparr>r_id = 0, r_session_id = s_id (sv_session session),
                              r_question_id = dto_question_id responseDto,
                              selected_option_id = or_null (dto_selected_option_id responseDto),
                              text_answer = or_null (dto_text_answer responseDto),
                              r_is_correct = isCorrect, points_earned = pointsEarned,
                              time_spent_seconds = dto_time_spent_seconds responseDto,
                              answered_at = now\<rparr>
                       in
                         (case post_response responsePayload s1 of
                            (saveRes, s2) \<Rightarrow>
                              if \<not> res_ok saveRes then
                                (if res_status saveRes = 409
                                 then (Inl (BadRequestException
                                         ''Response already submitted for this question''), s2)
                                 else (Inl (InternalServerErrorException
                                         ''Failed to save response''), s2))
                              else
                                (case json saveRes of
                                   [] \<Rightarrow> (Inl UncaughtTypeError, s2)
                                 | savedResponse # _ \<Rightarrow>
                                     (Inr \<lparr>response_id = r_id savedResponse,
                                           sr_is_correct = isCorrect,
                                           sr_points_earned = pointsEarned,
                                           sr_explanation = or_null (explanation question),
                                           sr_questions_answered =
                                             length (sv_responses session) + 1,
                                           sr_total_questions =
                                             total_questions (sv_session session),
                                           sr_time_remaining = time_remaining session\<rparr>,
                                      s2)))))))"

record finish_payload =
  fp_session_id :: string
  fp_total_score :: int
  fp_percentage_score :: int
  fp_total_questions :: nat
  fp_correct_answers :: nat
  fp_passed :: bool
  fp_attempt_number :: nat
  can_retake :: bool

text \<open>\<open>calculateSessionResults\<close> posts to the database function; the store answers 200.\<close>

definition calculateSessionResults :: "time \<Rightarrow> string \<Rightarrow> store \<Rightarrow> (http_exception + unit) \<times> store" where
  "calculateSessionResults now sessionId s =
     (let functionRes = \<lparr>res_status = 200, json = ()\<rparr>; s1 = calculate_session_results now sessionId s in
      if \<not> res_ok functionRes
      then (Inl (InternalServerErrorException ''Failed to calculate session results''), s1)
      else (Inr (), s1))"

definition finishAssessment ::
  "time \<Rightarrow> string \<Rightarrow> string \<Rightarrow> store \<Rightarrow> (http_exception + finish_payload) \<times> store" where
  "finishAssessment now sessionToken studentId s =
     (case getAssessmentSession now sessionToken studentId s of
        (Inl e, s1) \<Rightarrow> (Inl e, s1)
      | (Inr session, s1) \<Rightarrow>
          if status (sv_session session) \<noteq> in_progress
          then (Inl (BadRequestException ''Cannot finish non-active session''), s1)
          else
            (case calculateSessionResults now (s_id (sv_session session)) s1 of
               (Inl e, s2) \<Rightarrow> (Inl e, s2)
             | (Inr _, s2) \<Rightarrow>
                 (case getAssessmentSession now sessionToken studentId s2 of
                    (Inl e, s3) \<Rightarrow> (Inl e, s3)
                  | (Inr updatedSession, s3) \<Rightarrow>
                      (case assessment_templates updatedSession of
                         None \<Rightarrow> (Inl UncaughtTypeError, s3)
                       | Some template \<Rightarrow>
                           (let u = sv_session updatedSession in
                            (Inr \<lparr>fp_session_id = s_id (sv_session session),
                                  fp_total_score = total_score u,
                                  fp_percentage_score = percentage_score u,
                                  fp_total_questions = total_questions u,
                                  fp_correct_answers = correct_answers u,
                                  fp_passed = session_passed u,
                                  fp_attempt_number = attempt_number u,
                                  can_retake =
                                    (allow_retakes template \<and>
                                     (case max_attempts template of
                                        None \<Rightarrow> True
                                      | Some m \<Rightarrow> m = 0 \<or> attempt_number u < m))\<rparr>, s3))))))"

section \<open>Notions used in the statements\<close>

text \<open>The HTTP status with which the policy check rejects a start, if it does.\<close>

definition start_status :: "string \<Rightarrow> string \<Rightarrow> store \<Rightarrow> nat option" where
  "start_status templateId studentId s =
     (case validateStudentCanStartAssessment templateId studentId s of
        Inl e \<Rightarrow> Some (getStatus e) | Inr _ \<Rightarrow> None)"

text \<open>The student has a session with status \<open>in_progress\<close> for the template.\<close>

definition has_active_session :: "string \<Rightarrow> string \<Rightarrow> store \<Rightarrow> bool" where
  "has_active_session templateId studentId s =
     list_ex (\<lambda>r. student_id r = studentId \<and> template_id r = templateId \<and> status r = in_progress)
       (sessions s)"

text \<open>The template sets a limit and the student's sessions for it have reached it.\<close>

definition attempt_cap_reached :: "template_row \<Rightarrow> string \<Rightarrow> store \<Rightarrow> bool" where
  "attempt_cap_reached template studentId s =
     (case max_attempts template of
        None \<Rightarrow> False
      | Some m \<Rightarrow> 0 < m \<and>
          m \<le> length (filter (\<lambda>r. student_id r = studentId \<and> template_id r = t_id template)
                      (sessions s)))"


definition same_key :: "string \<Rightarrow> string \<Rightarrow> response_row \<Rightarrow> bool" where
  "same_key sid qid = (\<lambda>r. r_session_id r = sid \<and> r_question_id r = qid)"



text \<open>An option and a question with the correctness-revealing columns blanked.\<close>

definition hide_option :: "option_row \<Rightarrow> option_row" where
  "hide_option opt = opt\<lparr>is_correct := False, opt_explanation := None\<rparr>"

definition hide_question :: "session_question \<Rightarrow> session_question" where
  "hide_question q =
     q\<lparr>sq_row := (sq_row q)\<lparr>explanation := None\<rparr>, options := map hide_option (options q)\<rparr>"

section \<open>Concrete inputs\<close>

definition head_rows_spec :: DbTextAnswerRow where
  "head_rows_spec =
     \<lparr>correct_answer = Some ''df.head()'', case_sensitive = False, exact_match = False,
      alternate_answers = Some [''head(5)''], keywords_col = Some [''head'', ''first'', ''rows'']\<rparr>"


definition def_exact_spec :: DbTextAnswerRow where
  "def_exact_spec =
     \<lparr>correct_answer = Some ''def'', case_sensitive = False, exact_match = True,
      alternate_answers = Some [''define''], keywords_col = Some [''d'']\<rparr>"

definition empty_exact_spec :: DbTextAnswerRow where
  "empty_exact_spec =
     \<lparr>correct_answer = Some '''', case_sensitive = True, exact_match = True,
      alternate_answers = Some [], keywords_col = Some []\<rparr>"

definition empty_canonical_spec :: DbTextAnswerRow where
  "empty_canonical_spec =
     \<lparr>correct_answer = Some '''', case_sensitive = False, exact_match = False,
      alternate_answers = Some [], keywords_col = Some []\<rparr>"

definition abc_options :: "option_row list" where
  "abc_options =
     [\<lparr>opt_id = ''o1'', opt_question_id = ''q1'', option_text = ''x = 10'',
        option_image_url = None, is_correct = True, opt_explanation = Some ''assignment''\<rparr>,
      \<lparr>opt_id = ''o2'', opt_question_id = ''q1'', option_text = ''x := 10'',
        option_image_url = None, is_correct = False, opt_explanation = None\<rparr>,
      \<lparr>opt_id = ''o3'', opt_question_id = ''q1'', option_text = ''var x'',
        option_image_url = None, is_correct = False, opt_explanation = None\<rparr>]"

definition question_q1 :: question_row where
  "question_q1 =
     \<lparr>q_id = ''q1'', question_type = ''mcq'', question_text = ''Create a variable'',
      question_image_url = None, explanation = Some ''x = 10 is an assignment'',
      difficulty_level = ''easy'', points_value = Some 2, time_limit_seconds = None\<rparr>"

definition template_T1 :: template_row where
  "template_T1 =
     \<lparr>t_id = ''T1'', is_active = True, is_public = True, max_attempts = Some 2,
      time_limit_minutes = 30, randomize_questions = False, randomize_options = True,
      allow_retakes = True, passing_percentage = 70\<rparr>"

definition session_alice :: session_row where
  "session_alice =
     \<lparr>s_id = ''s1'', student_id = ''alice'', template_id = ''T1'', session_token = ''tok1'',
      attempt_number = 1, status = in_progress, started_at = 0, expires_at = Some 1800000,
      completed_at = None, total_questions = 2, correct_answers = 0, total_score = 0,
      percentage_score = 0, session_passed = False\<rparr>"

definition session_carol :: session_row where
  "session_carol =
     session_alice\<lparr>s_id := ''s2'', student_id := ''carol'', session_token := ''tok2'',
       status := completed, completed_at := Some 600000, correct_answers := 2, total_score := 3,
       percentage_score := 100, session_passed := True\<rparr>"

text \<open>
  Template \<open>T1\<close> has the questions \<open>q1\<close> (multiple choice) and \<open>q2\<close> (text); \<open>q3\<close> belongs
  to template \<open>T2\<close> only. Alice has a running session on \<open>T1\<close>, Carol a completed one;
  both sessions expire at 1800000.
\<close>

definition demo_store :: store where
  "demo_store =
     \<lparr>templates = [template_T1, template_T1\<lparr>t_id := ''T2'', max_attempts := None\<rparr>],
      template_questions = [(''T1'', ''q1''), (''T1'', ''q2''), (''T2'', ''q3'')],
      questions =
        [question_q1,
         question_q1\<lparr>q_id := ''q2'', question_type := ''text'', question_text := ''Show rows'',
           explanation := None\<rparr>,
         question_q1\<lparr>q_id := ''q3'', question_text := ''Define a function''\<rparr>],
      question_options = abc_options,
      text_answers = [(''q2'', head_rows_spec)],
      sessions = [session_alice, session_carol],
      responses = []\<rparr>"

text \<open>Bob has used both attempts on \<open>T1\<close> and has no running session.\<close>

definition capped_store :: store where
  "capped_store =
     demo_store\<lparr>sessions :=
       [session_carol\<lparr>s_id := ''s3'', student_id := ''bob'', session_token := ''tok3''\<rparr>,
        session_carol\<lparr>s_id := ''s4'', student_id := ''bob'', session_token := ''tok4'',
          attempt_number := 2\<rparr>]\<rparr>"

definition dto_q1 :: SubmitResponseDto where
  "dto_q1 =
     \<lparr>dto_session_token = ''tok1'', dto_question_id = ''q1'',
      dto_selected_option_id = Some ''o1'', dto_text_answer = None,
      dto_time_spent_seconds = 12\<rparr>"

definition dto_q1_again :: SubmitResponseDto where
  "dto_q1_again = dto_q1\<lparr>dto_selected_option_id := Some ''o2'', dto_time_spent_seconds := 3\<rparr>"

definition dto_q3 :: SubmitResponseDto where
  "dto_q3 = dto_q1\<lparr>dto_question_id := ''q3''\<rparr>"

definition dto_q9 :: SubmitResponseDto where
  "dto_q9 = dto_q1\<lparr>dto_question_id := ''q9''\<rparr>"

definition response_q1 :: response_row where
  "response_q1 =
     \<lparr>r_id = 0, r_session_id = ''s1'', r_question_id = ''q1'',
      selected_option_id = Some ''o1'', text_answer = None, r_is_correct = True,
      points_earned = 2, time_spent_seconds = 12, answered_at = 1000\<rparr>"

text \<open>
  The store in which the answer row of the text question \<open>q2\<close> has no alternate
  answers, and two submissions of Alice for \<open>q2\<close>: the canonical answer, then \<open>abc\<close>.
\<close>

definition null_alternates_store :: store where
  "null_alternates_store =
     demo_store\<lparr>text_answers := [(''q2'', head_rows_spec\<lparr>alternate_answers := None\<rparr>)]\<rparr>"

definition dto_q2 :: SubmitResponseDto where
  "dto_q2 =
     \<lparr>dto_session_token = ''tok1'', dto_question_id = ''q2'',
      dto_selected_option_id = None, dto_text_answer = Some ''df.head()'',
      dto_time_spent_seconds = 20\<rparr>"

definition dto_q2_again :: SubmitResponseDto where
  "dto_q2_again = dto_q2\<lparr>dto_text_answer := Some ''abc''\<rparr>"

definition response_q2 :: response_row where
  "response_q2 =
     \<lparr>r_id = 0, r_session_id = ''s1'', r_question_id = ''q2'',
      selected_option_id = None, text_answer = Some ''df.head()'', r_is_correct = True,
      points_earned = 2, time_spent_seconds = 20, answered_at = 1000\<rparr>"

definition response_q3 :: response_row where
  "response_q3 =
     \<lparr>r_id = 0, r_session_id = ''s1'', r_question_id = ''q3'',
      selected_option_id = Some ''o1'', text_answer = None, r_is_correct = False,
      points_earned = 0, time_spent_seconds = 12, answered_at = 1000\<rparr>"

section \<open>Text answers: properties\<close>

lemmas text_defs =
  no_direct_match_def keyword_majority_def evaluateTextAnswer_def scoreTextAnswer_def
  normalized_def canonical_def alternates_of_def keywords_of_def exact_equal_def
  trim_def is_space_def toLowerCase_def lower_char_def char_of_def bit_Suc_0_iff

lemma ceil_half_eq: "ceil_half n = (n + 1) div 2"
  unfolding ceil_half_def by (simp add: ceiling_divide_eq_div) linarith

lemma includes_str_Nil [simp]: "includes_str s [] = True"
  by (cases s) simp_all

lemma trim_Nil [simp]: "trim [] = []"
  by (simp add: trim_def)

lemma toLowerCase_Nil_iff [simp]: "toLowerCase s = [] \<longleftrightarrow> s = []"
  by (simp add: toLowerCase_def)





text \<open>
  C7, as amended. For a text question whose answer spec has \<open>exact_match\<close> true,
  \<open>evaluateTextAnswer\<close> marks a submission correct exactly when it is not empty once
  trimmed and equals, trimmed, the trimmed canonical answer, case-sensitive or not as
  \<open>case_sensitive\<close> says; so whenever the trimmed submission or the trimmed canonical
  answer is not empty, correctness is that equality alone. The text branch of
  \<open>validateAndScoreResponse\<close>, on a row that has a canonical answer, marks a submission
  correct exactly when it is not the empty string and that equality holds. The verdict
  of an exact-match spec is the same whatever the alternate answers and the keywords
  are, also when they are absent.
\<close>

theorem exact_match_rule:
  assumes "exact_match sp"
  shows "evaluateTextAnswer (Some a) (Some sp) = (trim a \<noteq> [] \<and> exact_equal sp a) \<and>
     (trim a \<noteq> [] \<or> trim (canonical sp) \<noteq> [] \<longrightarrow>
        evaluateTextAnswer (Some a) (Some sp) = exact_equal sp a) \<and>
     (correct_answer sp \<noteq> None \<longrightarrow>
        scoreTextAnswer (Some a) (Some sp) = Inr (a \<noteq> [] \<and> exact_equal sp a)) \<and>
     (correct_answer sp \<noteq> None \<and> (trim a \<noteq> [] \<or> trim (canonical sp) \<noteq> []) \<longrightarrow>
        scoreTextAnswer (Some a) (Some sp) = Inr (exact_equal sp a)) \<and>
     evaluateTextAnswer (Some a) (Some (sp\<lparr>alternate_answers := alts, keywords_col := kws\<rparr>)) =
       evaluateTextAnswer (Some a) (Some sp) \<and>
     scoreTextAnswer (Some a) (Some (sp\<lparr>alternate_answers := alts, keywords_col := kws\<rparr>)) =
       scoreTextAnswer (Some a) (Some sp)"
proof -
  have e: "evaluateTextAnswer (Some a) (Some sp) = (trim a \<noteq> [] \<and> exact_equal sp a)"
    using assms
    by (auto simp: evaluateTextAnswer_def exact_equal_def canonical_def toLowerCase_def Let_def
        split: option.splits)
  have s: "correct_answer sp \<noteq> None \<longrightarrow>
        scoreTextAnswer (Some a) (Some sp) = Inr (a \<noteq> [] \<and> exact_equal sp a)"
    using assms
    by (auto simp: scoreTextAnswer_def exact_equal_def canonical_def toLowerCase_def Let_def
        split: option.splits)
  have e': "trim a \<noteq> [] \<or> trim (canonical sp) \<noteq> [] \<longrightarrow>
        evaluateTextAnswer (Some a) (Some sp) = exact_equal sp a"
    unfolding e by (cases "case_sensitive sp") (auto simp: exact_equal_def toLowerCase_def)
  have s': "correct_answer sp \<noteq> None \<and> (trim a \<noteq> [] \<or> trim (canonical sp) \<noteq> []) \<longrightarrow>
        scoreTextAnswer (Some a) (Some sp) = Inr (exact_equal sp a)"
    using s by (cases "case_sensitive sp") (auto simp: exact_equal_def toLowerCase_def)
  have i1: "evaluateTextAnswer (Some a) (Some (sp\<lparr>alternate_answers := alts, keywords_col := kws\<rparr>)) =
       evaluateTextAnswer (Some a) (Some sp)"
    using assms by (simp add: evaluateTextAnswer_def Let_def)
  have i2: "scoreTextAnswer (Some a) (Some (sp\<lparr>alternate_answers := alts, keywords_col := kws\<rparr>)) =
       scoreTextAnswer (Some a) (Some sp)"
    using assms by (simp add: scoreTextAnswer_def Let_def split: option.splits)
  show ?thesis using e e' s s' i1 i2 by blast
qed

text \<open>
  Witness for C7: \<open>DEF\<close> matches the canonical answer \<open>def\<close> when case is ignored, with
  or without alternate answers and keywords; a blank submission does not match it.
\<close>

theorem exact_match_rule_witness:
  "exact_match def_exact_spec \<and> correct_answer def_exact_spec \<noteq> None \<and>
   trim '' DEF '' \<noteq> [] \<and> exact_equal def_exact_spec '' DEF '' \<and>
   evaluateTextAnswer (Some '' DEF '') (Some def_exact_spec) \<and>
   scoreTextAnswer (Some '' DEF '') (Some def_exact_spec) = Inr True \<and>
   evaluateTextAnswer (Some '' DEF '')
     (Some (def_exact_spec\<lparr>alternate_answers := None, keywords_col := None\<rparr>)) \<and>
   trim (canonical def_exact_spec) \<noteq> [] \<and> \<not> exact_equal def_exact_spec '' '' \<and>
   \<not> evaluateTextAnswer (Some '' '') (Some def_exact_spec) \<and>
   scoreTextAnswer (Some '' '') (Some def_exact_spec) = Inr False"
  using exact_match_rule [of def_exact_spec "'' DEF ''" None None]
    exact_match_rule [of def_exact_spec "'' ''" None None]
  by (simp add: def_exact_spec_def exact_equal_def canonical_def trim_def is_space_def
      toLowerCase_def lower_char_def char_of_def bit_Suc_0_iff)

text \<open>
  Counterexample to C7 as stated: the canonical answer is empty and the submission is
  blank. The trimmed submission equals the canonical answer, yet \<open>evaluateTextAnswer\<close>
  marks it incorrect.
\<close>

theorem exact_match_blank_counterexample:
  "exact_match empty_exact_spec \<and> exact_equal empty_exact_spec '' '' \<and>
   \<not> evaluateTextAnswer (Some '' '') (Some empty_exact_spec)"
  by (simp add: empty_exact_spec_def text_defs)

text \<open>
  C10. The two evaluators do not agree on every spec. For a canonical answer that is
  empty, \<open>evaluateTextAnswer\<close> rejects every submission and \<open>validateAndScoreResponse\<close>
  accepts every one that is not empty; for a row without alternate answers,
  \<open>evaluateTextAnswer\<close> answers and \<open>validateAndScoreResponse\<close> raises a \<open>TypeError\<close>.
\<close>

theorem evaluators_disagree:
  "evaluateTextAnswer (Some ''abc'') (Some empty_canonical_spec) = False \<and>
   scoreTextAnswer (Some ''abc'') (Some empty_canonical_spec) = Inr True \<and>
   evaluateTextAnswer (Some ''abc'') (Some (head_rows_spec\<lparr>alternate_answers := None\<rparr>)) = False \<and>
   scoreTextAnswer (Some ''abc'') (Some (head_rows_spec\<lparr>alternate_answers := None\<rparr>)) =
     Inl TypeError"
  by (simp add: empty_canonical_spec_def head_rows_spec_def text_defs ceil_half_eq)

text \<open>On a row with a canonical answer and both lists present the evaluators agree.\<close>

lemma evaluators_agree_wellformed:
  assumes "trim a \<noteq> []" and "correct_answer sp = Some c" and "trim c \<noteq> []"
    and "alternate_answers sp = Some alts" and "keywords_col sp = Some kws"
  shows "scoreTextAnswer (Some a) (Some sp) = Inr (evaluateTextAnswer (Some a) (Some sp))"
proof -
  have a: "a \<noteq> []" using assms(1) by auto
  show ?thesis using assms a
    by (auto simp: evaluateTextAnswer_def scoreTextAnswer_def Let_def)
qed

section \<open>The score of \<open>finish\<close>: properties\<close>

lemma floor_rat_numeral: "\<lfloor>(numeral a :: rat) / numeral b\<rfloor> = numeral a div numeral b"
  using floor_divide_of_int_eq [of "numeral a" "numeral b", where ?'a = rat] by simp

lemmas double_defs = to_double_def scale_up.simps scale_down.simps round_half_even_def Let_def
  floor_rat_numeral

lemma double_23_40:
  "to_double (to_double (23 / 40) * 100) = 8092405580431359 / 140737488355328"
  by (simp add: double_defs)

lemma double_18_25: "to_double (to_double (18 / 25) * 100) = 72"
  by (simp add: double_defs)

lemma double_17_25: "to_double (to_double (17 / 25) * 100) = 68"
  by (simp add: double_defs)

lemma finish_summary_score:
  "score (finish_summary flags) =
     (if 0 < length flags
      then Math_round (to_double (to_double
             (of_nat (length (filter (\<lambda>c. c) flags)) / of_nat (length flags)) * 100))
      else 0)"
  by (simp add: finish_summary_def Let_def)

lemma finish_summary_passed:
  "passed (finish_summary flags) = (72 \<le> score (finish_summary flags))"
  by (simp add: finish_summary_def PASSING_SCORE_def Let_def)

lemma finish_summary_empty: "score (finish_summary []) = 0 \<and> \<not> passed (finish_summary [])"
  by (simp add: finish_summary_def PASSING_SCORE_def Let_def)

lemma finish_summary_fixed_pass_mark:
  "score (finish_summary_fixed (replicate 18 True)) = 72 \<and>
   passed (finish_summary_fixed (replicate 18 True)) \<and>
   score (finish_summary_fixed (replicate 17 True)) = 68 \<and>
   \<not> passed (finish_summary_fixed (replicate 17 True))"
  by (simp add: finish_summary_fixed_def QUESTIONS_length_def double_18_25 double_17_25
      Math_round_def floor_rat_numeral Let_def)

text \<open>
  C8. The score is not \<open>round(100 \<times> correct / total)\<close> for every response list. With 23
  correct responses out of 40 the percentage is 57.5, which rounds to 58; \<open>finish\<close>
  divides first, and the double nearest to \<open>23/40\<close> times 100 is the double just below
  57.5, so that the score is 57. The pass mark (\<open>passed\<close> exactly when the score is at
  least 72) and the score 0 of the empty list are as the claim says.
\<close>

theorem finish_score_tie:
  "score (finish_summary (replicate 23 True @ replicate 17 False)) = 57 \<and>
   correct (finish_summary (replicate 23 True @ replicate 17 False)) = 23 \<and>
   total (finish_summary (replicate 23 True @ replicate 17 False)) = 40 \<and>
   to_double (to_double (23 / 40) * 100) = 8092405580431359 / 140737488355328 \<and>
   percentage_rounded 23 40 = 58"
proof -
  have "score (finish_summary (replicate 23 True @ replicate 17 False)) = 57"
    by (simp add: finish_summary_score double_23_40 Math_round_def floor_rat_numeral)
  moreover have "correct (finish_summary (replicate 23 True @ replicate 17 False)) = 23"
    by (simp add: finish_summary_def Let_def)
  moreover have "total (finish_summary (replicate 23 True @ replicate 17 False)) = 40"
    by (simp add: finish_summary_def Let_def)
  moreover have "percentage_rounded 23 40 = 58"
    by (simp add: percentage_rounded_def floor_rat_numeral)
  ultimately show ?thesis using double_23_40 by simp
qed

section \<open>Shuffling: properties\<close>

lemma shuffle_swaps_inv:
  assumes "r < length h" and "i = 0 \<or> i < length (h ! r)" and "\<forall>k. pick k \<le> k"
  shows "length (shuffle_swaps pick r i h) = length h \<and>
         mset (shuffle_swaps pick r i h ! r) = mset (h ! r) \<and>
         (\<forall>a. a \<noteq> r \<longrightarrow> shuffle_swaps pick r i h ! a = h ! a)"
  using assms
proof (induction i arbitrary: h)
  case 0
  then show ?case by simp
next
  case (Suc i)
  let ?s = "h ! r"
  let ?j = "pick (Suc i)"
  let ?h1 = "h[r := ?s[Suc i := ?s ! ?j, ?j := ?s ! Suc i]]"
  have i: "Suc i < length ?s" using Suc.prems by simp
  have j: "?j < length ?s" using Suc.prems(3) i by (meson le_less_trans)
  have r1: "r < length ?h1" using Suc.prems(1) by simp
  have l1: "i = 0 \<or> i < length (?h1 ! r)" using i Suc.prems(1) by simp
  have ms: "mset (?h1 ! r) = mset ?s" using i j Suc.prems(1) by (simp add: mset_swap)
  have IH: "length (shuffle_swaps pick r i ?h1) = length ?h1 \<and>
         mset (shuffle_swaps pick r i ?h1 ! r) = mset (?h1 ! r) \<and>
         (\<forall>a. a \<noteq> r \<longrightarrow> shuffle_swaps pick r i ?h1 ! a = ?h1 ! a)"
    by (rule Suc.IH [OF r1 l1 Suc.prems(3)])
  show ?case using IH ms by (simp add: Let_def)
qed

lemma shuffleArray_spec:
  assumes "array < length h" and "\<forall>i. pick i \<le> i"
  shows "fst (shuffleArray pick array h) = length h \<and>
     length (snd (shuffleArray pick array h)) = Suc (length h) \<and>
     mset (snd (shuffleArray pick array h) ! length h) = mset (h ! array) \<and>
     (\<forall>a < length h. snd (shuffleArray pick array h) ! a = h ! a)"
proof -
  let ?h1 = "h @ [h ! array]"
  let ?n = "length (?h1 ! length h) - 1"
  have r: "length h < length ?h1" by simp
  have n: "?n = 0 \<or> ?n < length (?h1 ! length h)" by (cases "h ! array") auto
  have inv: "length (shuffle_swaps pick (length h) ?n ?h1) = length ?h1 \<and>
         mset (shuffle_swaps pick (length h) ?n ?h1 ! length h) = mset (?h1 ! length h) \<and>
         (\<forall>a. a \<noteq> length h \<longrightarrow> shuffle_swaps pick (length h) ?n ?h1 ! a = ?h1 ! a)"
    by (rule shuffle_swaps_inv [OF r n assms(2)])
  show ?thesis using inv by (auto simp: shuffleArray_def Let_def nth_append)
qed

lemma mset_shuffled_of: "\<forall>i. pick i \<le> i \<Longrightarrow> mset (shuffled_of pick xs) = mset xs"
  using shuffleArray_spec [of 0 "[xs]" pick]
  by (simp add: shuffled_of_def split_beta)

text \<open>
  C9. For every heap and every array in it (of options, of questions, of anything),
  \<open>shuffleArray\<close> returns a new array, different from its input, whose contents are a
  permutation of the input's, and leaves the input array and every other array as they
  were; the random indices are those \<open>Math.floor(Math.random() * (i + 1))\<close> can give.
  So \<open>prepareQuestionOptions\<close> returns the ids and texts of the canonical options with
  their multiplicities, in the canonical order when randomization is off.
\<close>

theorem shuffleArray_permutation:
  assumes "array < length h" and "\<forall>i. pick i \<le> i"
  shows "(case shuffleArray pick array h of
            (r, h') \<Rightarrow> r \<noteq> array \<and> mset (h' ! r) = mset (h ! array) \<and>
                       (\<forall>a < length h. h' ! a = h ! a)) \<and>
     mset (map (\<lambda>p. (p_id p, p_option_text p)) (prepareQuestionOptions pick opts randomize)) =
       mset (map (\<lambda>opt. (opt_id opt, option_text opt)) opts) \<and>
     (\<not> randomize \<longrightarrow>
        map (\<lambda>p. (p_id p, p_option_text p)) (prepareQuestionOptions pick opts randomize) =
          map (\<lambda>opt. (opt_id opt, option_text opt)) opts)"
proof -
  have 1: "(case shuffleArray pick array h of
            (r, h') \<Rightarrow> r \<noteq> array \<and> mset (h' ! r) = mset (h ! array) \<and>
                       (\<forall>a < length h. h' ! a = h ! a))"
    using shuffleArray_spec [OF assms] assms(1) by (simp add: split_beta)
  let ?prep = "map (\<lambda>opt. \<lparr>p_id = opt_id opt, p_option_text = option_text opt,
                        p_option_image_url = option_image_url opt\<rparr>) opts"
  have "mset (map (\<lambda>p. (p_id p, p_option_text p)) (shuffled_of pick ?prep)) =
        mset (map (\<lambda>p. (p_id p, p_option_text p)) ?prep)"
    using mset_shuffled_of [OF assms(2), of ?prep] by (metis mset_map)
  then have rnd: "randomize \<Longrightarrow>
       mset (map (\<lambda>p. (p_id p, p_option_text p)) (prepareQuestionOptions pick opts randomize)) =
       mset (map (\<lambda>opt. (opt_id opt, option_text opt)) opts)"
    by (simp add: prepareQuestionOptions_def Let_def comp_def)
  have 3: "\<not> randomize \<longrightarrow>
        map (\<lambda>p. (p_id p, p_option_text p)) (prepareQuestionOptions pick opts randomize) =
          map (\<lambda>opt. (opt_id opt, option_text opt)) opts"
    by (simp add: prepareQuestionOptions_def Let_def comp_def)
  have 2: "mset (map (\<lambda>p. (p_id p, p_option_text p)) (prepareQuestionOptions pick opts randomize)) =
       mset (map (\<lambda>opt. (opt_id opt, option_text opt)) opts)"
  proof (cases randomize)
    case True
    then show ?thesis by (rule rnd)
  next
    case False
    then show ?thesis using 3 by simp
  qed
  show ?thesis using 1 2 3 by blast
qed

text \<open>
  Witness for C9: the source that always draws index 0 rotates \<open>[1, 2, 3]\<close> into a new
  array and rotates the three prepared options; without randomization the order of the
  options is kept.
\<close>

theorem shuffleArray_permutation_witness:
  "(0::nat) < length [[1::nat, 2, 3]] \<and>
   shuffleArray (\<lambda>i. 0) 0 [[1::nat, 2, 3]] = (1, [[1, 2, 3], [2, 3, 1]]) \<and>
   map p_id (prepareQuestionOptions (\<lambda>i. 0) abc_options True) = [''o2'', ''o3'', ''o1''] \<and>
   mset (map (\<lambda>p. (p_id p, p_option_text p)) (prepareQuestionOptions (\<lambda>i. 0) abc_options True)) =
     mset (map (\<lambda>opt. (opt_id opt, option_text opt)) abc_options) \<and>
   map (\<lambda>p. (p_id p, p_option_text p)) (prepareQuestionOptions (\<lambda>i. 0) abc_options False) =
     map (\<lambda>opt. (opt_id opt, option_text opt)) abc_options"
  using shuffleArray_permutation [of 0 "[[1::nat, 2, 3]]" "\<lambda>i. 0" abc_options True]
    shuffleArray_permutation [of 0 "[[1::nat, 2, 3]]" "\<lambda>i. 0" abc_options False]
  by (simp add: shuffleArray_def prepareQuestionOptions_def shuffled_of_def abc_options_def
      Let_def numeral_2_eq_2)

section \<open>The policy check: properties\<close>

lemmas demo_defs = demo_store_def capped_store_def template_T1_def session_alice_def
  session_carol_def question_q1_def abc_options_def head_rows_spec_def response_q1_def

lemmas service_defs = getAssessmentTemplate_def rest_get_def res_ok_def
  getActiveSessionsForTemplate_def getAttemptCount_def validateStudentCanStartAssessment_def
  getAssessmentSession_def expireSession_def patch_session_status_def

lemma filter_empty_list_ex: "filter P xs = [] \<longleftrightarrow> \<not> list_ex P xs"
  by (simp add: filter_empty_conv list_ex_iff)

text \<open>
  C4, as amended. For a template that exists, the start is rejected with HTTP 403 when
  the template is inactive or not public; otherwise with HTTP 400 when the student has
  an \<open>in_progress\<close> session for the template; otherwise with HTTP 403 when the template
  sets a non-zero \<open>max_attempts\<close> and the number of the student's sessions for the
  template has reached it; otherwise the check passes and the start goes on.
\<close>

theorem start_policy:
  assumes "filter (\<lambda>t. t_id t = templateId) (templates s) = template # rest"
  shows "start_status templateId studentId s =
     (if \<not> is_active template \<or> \<not> is_public template then Some 403
      else if has_active_session templateId studentId s then Some 400
      else if attempt_cap_reached template studentId s then Some 403
      else None)"
proof -
  have t: "t_id template = templateId"
    using assms by (metis (mono_tags, lifting) filter_eq_ConsD)
  show ?thesis using assms t
    by (auto simp: start_status_def validateStudentCanStartAssessment_def getAssessmentTemplate_def
        rest_get_def res_ok_def getActiveSessionsForTemplate_def getAttemptCount_def
        has_active_session_def attempt_cap_reached_def filter_empty_list_ex Let_def
        split: option.splits)
qed

text \<open>
  Witness for C4: Bob, at the limit of two attempts, gets 403; Alice, with a running
  session, gets 400; Dave, with no session, may start.
\<close>

theorem start_policy_witness:
  "filter (\<lambda>t. t_id t = ''T1'') (templates capped_store) = [template_T1] \<and>
   filter (\<lambda>t. t_id t = ''T1'') (templates demo_store) = [template_T1] \<and>
   start_status ''T1'' ''bob'' capped_store = Some 403 \<and>
   start_status ''T1'' ''alice'' demo_store = Some 400 \<and>
   start_status ''T1'' ''dave'' demo_store = None"
  using start_policy [of "''T1''" capped_store template_T1 "[]" "''bob''"]
    start_policy [of "''T1''" demo_store template_T1 "[]" "''alice''"]
    start_policy [of "''T1''" demo_store template_T1 "[]" "''dave''"]
  by (simp add: demo_defs has_active_session_def attempt_cap_reached_def)

text \<open>
  Counterexample to C4 as stated: the template allows two attempts, Bob has two
  sessions and none in progress, and the start is rejected with 403, not 400.
\<close>

theorem start_policy_cap_counterexample:
  "is_active template_T1 \<and> is_public template_T1 \<and> max_attempts template_T1 = Some 2 \<and>
   getAttemptCount ''T1'' ''bob'' capped_store = 2 \<and>
   getActiveSessionsForTemplate ''T1'' ''bob'' capped_store = [] \<and>
   validateStudentCanStartAssessment ''T1'' ''bob'' capped_store =
     Inl (ForbiddenException
            ''You have reached the maximum number of attempts for this assessment'') \<and>
   start_status ''T1'' ''bob'' capped_store = Some 403"
  by (simp add: start_status_def demo_defs service_defs)

section \<open>Reading, expiring and finishing a session: properties\<close>

lemma filter_map_sessions:
  "filter (\<lambda>r. session_token r = tok \<and> student_id r = stu)
     (map (\<lambda>r. if s_id r = i then r\<lparr>status := st\<rparr> else r) xs) =
   map (\<lambda>r. if s_id r = i then r\<lparr>status := st\<rparr> else r)
     (filter (\<lambda>r. session_token r = tok \<and> student_id r = stu) xs)"
  by (induction xs) auto

lemma getAssessmentSession_tables:
  "responses (snd (getAssessmentSession now tok stu s)) = responses s \<and>
   questions (snd (getAssessmentSession now tok stu s)) = questions s \<and>
   question_options (snd (getAssessmentSession now tok stu s)) = question_options s \<and>
   text_answers (snd (getAssessmentSession now tok stu s)) = text_answers s \<and>
   templates (snd (getAssessmentSession now tok stu s)) = templates s \<and>
   template_questions (snd (getAssessmentSession now tok stu s)) = template_questions s"
  by (simp add: getAssessmentSession_def expireSession_def patch_session_status_def rest_get_def
      res_ok_def Let_def split: list.splits option.splits)

lemma getAssessmentSession_Inr:
  assumes "getAssessmentSession now tok stu s = (Inr v, s1)"
  shows "s1 = s \<and>
         (\<exists>rest. filter (\<lambda>r. session_token r = tok \<and> student_id r = stu) (sessions s) =
            sv_session v # rest) \<and>
         status (sv_session v) \<noteq> expired \<and>
         (\<forall>e. expires_at (sv_session v) = Some e \<longrightarrow> \<not> e < now) \<and>
         sv_responses v = filter (\<lambda>r. r_session_id r = s_id (sv_session v)) (responses s)"
  using assms
  by (auto simp: getAssessmentSession_def rest_get_def res_ok_def Let_def
      split: list.splits option.splits if_splits)

text \<open>
  The lazy expiry: the first read of an \<open>in_progress\<close> session after \<open>expires_at\<close> sets
  the status to \<open>expired\<close> and is rejected; every later read and every later finish is
  rejected and leaves the store as it is.
\<close>

lemma lazy_expiry:
  assumes found: "filter (\<lambda>r. session_token r = tok \<and> student_id r = stu) (sessions s) =
                    session # rest"
    and st: "status session = in_progress" and ex: "expires_at session = Some e"
    and late: "e < now"
  shows "getAssessmentSession now tok stu s =
           (Inl (ForbiddenException ''Assessment session has expired''),
            expireSession (s_id session) s)"
    and "getAssessmentSession now' tok stu (expireSession (s_id session) s) =
           (Inl (ForbiddenException ''Assessment session has expired''),
            expireSession (s_id session) s)"
    and "finishAssessment now' tok stu (expireSession (s_id session) s) =
           (Inl (ForbiddenException ''Assessment session has expired''),
            expireSession (s_id session) s)"
proof -
  show "getAssessmentSession now tok stu s =
           (Inl (ForbiddenException ''Assessment session has expired''),
            expireSession (s_id session) s)"
    using assms by (simp add: getAssessmentSession_def rest_get_def res_ok_def)
  have f: "filter (\<lambda>r. session_token r = tok \<and> student_id r = stu)
             (sessions (expireSession (s_id session) s)) =
           session\<lparr>status := expired\<rparr> #
             map (\<lambda>r. if s_id r = s_id session then r\<lparr>status := expired\<rparr> else r) rest"
    using found by (simp add: expireSession_def patch_session_status_def filter_map_sessions)
  show 2: "getAssessmentSession now' tok stu (expireSession (s_id session) s) =
           (Inl (ForbiddenException ''Assessment session has expired''),
            expireSession (s_id session) s)"
    using f by (simp add: getAssessmentSession_def rest_get_def res_ok_def)
  show "finishAssessment now' tok stu (expireSession (s_id session) s) =
           (Inl (ForbiddenException ''Assessment session has expired''),
            expireSession (s_id session) s)"
    using 2 by (simp add: finishAssessment_def)
qed

text \<open>A finish on a completed session is rejected.\<close>

lemma completed_finish_rejected:
  assumes found: "filter (\<lambda>r. session_token r = tok \<and> student_id r = stu) (sessions s) =
                    session # rest"
    and st: "status session = completed"
  shows "\<exists>e. fst (finishAssessment now tok stu s) = Inl e"
proof (cases "getAssessmentSession now tok stu s")
  case (Pair g s1)
  show ?thesis
  proof (cases g)
    case (Inl e)
    then show ?thesis using Pair by (simp add: finishAssessment_def)
  next
    case (Inr v)
    have "sv_session v = session"
      using getAssessmentSession_Inr [OF Pair [unfolded Inr]] found by auto
    then show ?thesis using Pair Inr st by (simp add: finishAssessment_def)
  qed
qed

text \<open>
  C3. A read does take a session out of the state \<open>completed\<close>: Carol's session is
  completed and its \<open>expires_at\<close> has passed; reading it through \<open>getAssessmentSession\<close>
  is rejected as expired and the stored status changes from \<open>completed\<close> to \<open>expired\<close>.
\<close>

theorem completed_session_expired_by_read:
  "map status (sessions demo_store) = [in_progress, completed] \<and>
   fst (getAssessmentSession 2000000 ''tok2'' ''carol'' demo_store) =
     Inl (ForbiddenException ''Assessment session has expired'') \<and>
   map status (sessions (snd (getAssessmentSession 2000000 ''tok2'' ''carol'' demo_store))) =
     [in_progress, expired]"
  by (simp add: demo_defs service_defs)

section \<open>Submitting a response: properties\<close>

lemma post_response_cases:
  "post_response row s = (res, s') \<Longrightarrow>
     (list_ex (\<lambda>r. r_session_id r = r_session_id row \<and> r_question_id r = r_question_id row)
        (responses s) \<and> res_status res = 409 \<and> s' = s) \<or>
     (\<not> list_ex (\<lambda>r. r_session_id r = r_session_id row \<and> r_question_id r = r_question_id row)
          (responses s) \<and>
      res_status res = 201 \<and> json res = [row\<lparr>r_id := length (responses s)\<rparr>] \<and>
      s' = s\<lparr>responses := responses s @ [row\<lparr>r_id := length (responses s)\<rparr>]\<rparr>)"
  by (auto simp: post_response_def Let_def split: if_splits)

text \<open>
  The two outcomes of \<open>submitResponse\<close>: it is rejected and the response table is as
  before, or it returns and the table has one more row, for a session that is in
  progress and not past its expiry, an existing question, and a pair of session and
  question that had no row.
\<close>

lemma submitResponse_shape:
  assumes "submitResponse now dto stu s = (r, s')"
  shows "(\<exists>e. r = Inl e \<and> responses s' = responses s) \<or>
     (\<exists>res session rest row.
        r = Inr res \<and>
        filter (\<lambda>x. session_token x = dto_session_token dto \<and> student_id x = stu) (sessions s) =
          session # rest \<and>
        status session = in_progress \<and> (\<forall>e. expires_at session = Some e \<longrightarrow> \<not> e < now) \<and>
        filter (\<lambda>q. q_id q = dto_question_id dto) (questions s) \<noteq> [] \<and>
        \<not> list_ex (same_key (s_id session) (dto_question_id dto)) (responses s) \<and>
        same_key (s_id session) (dto_question_id dto) row \<and>
        s' = s\<lparr>responses := responses s @ [row]\<rparr>)"
proof (cases "getAssessmentSession now (dto_session_token dto) stu s")
  case (Pair g s1)
  note tabs = getAssessmentSession_tables [of now "dto_session_token dto" stu s]
  show ?thesis
  proof (cases g)
    case (Inl e)
    then show ?thesis using assms Pair tabs by (auto simp: submitResponse_def)
  next
    case (Inr v)
    note gi = getAssessmentSession_Inr [OF Pair [unfolded Inr]]
    then have s1: "s1 = s" by simp
    show ?thesis
    proof (cases "status (sv_session v) \<noteq> in_progress")
      case True
      then show ?thesis using assms Pair Inr s1 by (auto simp: submitResponse_def)
    next
      case False
      then have st: "status (sv_session v) = in_progress" by simp
      show ?thesis
      proof (cases "filter (\<lambda>q. q_id q = dto_question_id dto) (questions s)")
        case Nil
        then show ?thesis using assms Pair Inr s1 st
          by (auto simp: submitResponse_def rest_get_def)
      next
        case (Cons question qs)
        show ?thesis
        proof (cases "validateAndScoreResponse question dto s")
          case (Inl e)
          then show ?thesis using assms Pair Inr s1 st Cons
            by (auto simp: submitResponse_def rest_get_def)
        next
          case (Inr sc)
          obtain isCorrect pointsEarned where sc: "sc = (isCorrect, pointsEarned)" by (cases sc)
          let ?row = "\<lparr>r_id = 0, r_session_id = s_id (sv_session v),
                              r_question_id = dto_question_id dto,
                              selected_option_id = or_null (dto_selected_option_id dto),
                              text_answer = or_null (dto_text_answer dto),
                              r_is_correct = isCorrect, points_earned = pointsEarned,
                              time_spent_seconds = dto_time_spent_seconds dto,
                              answered_at = now\<rparr>"
          obtain saveRes s2 where post: "post_response ?row s = (saveRes, s2)"
            by (cases "post_response ?row s")
          from post_response_cases [OF post]
          show ?thesis
          proof
            assume c: "list_ex (\<lambda>r. r_session_id r = r_session_id ?row \<and>
                                   r_question_id r = r_question_id ?row) (responses s)
                \<and> res_status saveRes = 409 \<and> s2 = s"
            then show ?thesis using assms Pair \<open>g = Inr v\<close> s1 st Cons Inr sc post
              by (auto simp: submitResponse_def rest_get_def res_ok_def)
          next
            assume c: "\<not> list_ex (\<lambda>r. r_session_id r = r_session_id ?row \<and>
                                     r_question_id r = r_question_id ?row) (responses s)
                \<and> res_status saveRes = 201
                \<and> json saveRes = [?row\<lparr>r_id := length (responses s)\<rparr>]
                \<and> s2 = s\<lparr>responses := responses s @ [?row\<lparr>r_id := length (responses s)\<rparr>]\<rparr>"
            have "r = Inr \<lparr>response_id = length (responses s), sr_is_correct = isCorrect,
                     sr_points_earned = pointsEarned,
                     sr_explanation = or_null (explanation question),
                     sr_questions_answered = length (sv_responses v) + 1,
                     sr_total_questions = total_questions (sv_session v),
                     sr_time_remaining = time_remaining v\<rparr> \<and> s' = s2"
              using assms Pair \<open>g = Inr v\<close> s1 st Cons Inr sc post c
              by (auto simp: submitResponse_def rest_get_def res_ok_def)
            moreover obtain rest where
              "filter (\<lambda>x. session_token x = dto_session_token dto \<and> student_id x = stu)
                 (sessions s) = sv_session v # rest"
              using gi by blast
            ultimately show ?thesis using c gi st Cons
              by (intro disjI2 exI conjI) (simp_all add: same_key_def)
          qed
        qed
      qed
    qed
  qed
qed

lemma submitResponse_cases [consumes 1, case_names rejected saved]:
  assumes "submitResponse now dto stu s = (r, s')"
  obtains e where "r = Inl e" and "responses s' = responses s"
  | res session rest row where "r = Inr res"
      and "filter (\<lambda>x. session_token x = dto_session_token dto \<and> student_id x = stu)
             (sessions s) = session # rest"
      and "status session = in_progress"
      and "\<forall>e. expires_at session = Some e \<longrightarrow> \<not> e < now"
      and "filter (\<lambda>q. q_id q = dto_question_id dto) (questions s) \<noteq> []"
      and "\<not> list_ex (same_key (s_id session) (dto_question_id dto)) (responses s)"
      and "same_key (s_id session) (dto_question_id dto) row"
      and "s' = s\<lparr>responses := responses s @ [row]\<rparr>"
  using submitResponse_shape [OF assms] by (elim disjE exE conjE) auto



text \<open>
  The submission that passes every check is accepted and its row appended, whatever
  the question is.
\<close>

lemma submitResponse_accepts:
  assumes g: "fst (getAssessmentSession now (dto_session_token dto) stu s) = Inr v"
    and st: "status (sv_session v) = in_progress"
    and qq: "filter (\<lambda>q. q_id q = dto_question_id dto) (questions s) = question # rest"
    and sc: "validateAndScoreResponse question dto s = Inr (isCorrect, pointsEarned)"
    and new: "\<not> list_ex (same_key (s_id (sv_session v)) (dto_question_id dto)) (responses s)"
  shows "submitResponse now dto stu s =
     (Inr \<lparr>response_id = length (responses s), sr_is_correct = isCorrect,
           sr_points_earned = pointsEarned, sr_explanation = or_null (explanation question),
           sr_questions_answered = length (sv_responses v) + 1,
           sr_total_questions = total_questions (sv_session v),
           sr_time_remaining = time_remaining v\<rparr>,
      s\<lparr>responses := responses s @
           [\<lparr>r_id = length (responses s), r_session_id = s_id (sv_session v),
             r_question_id = dto_question_id dto,
             selected_option_id = or_null (dto_selected_option_id dto),
             text_answer = or_null (dto_text_answer dto),
             r_is_correct = isCorrect, points_earned = pointsEarned,
             time_spent_seconds = dto_time_spent_seconds dto, answered_at = now\<rparr>]\<rparr>)"
proof -
  define sg where "sg = snd (getAssessmentSession now (dto_session_token dto) stu s)"
  have gp: "getAssessmentSession now (dto_session_token dto) stu s = (Inr v, sg)"
    using g by (simp add: sg_def prod_eq_iff)
  have sg: "sg = s" using getAssessmentSession_Inr [OF gp] by simp
  show ?thesis using gp sg st qq sc new
    by (simp add: submitResponse_def rest_get_def res_ok_def post_response_def same_key_def
        Let_def)
qed

text \<open>The links between templates and questions have no part in a submission.\<close>

lemma getAssessmentSession_ignores_links:
  "getAssessmentSession now tok stu (s\<lparr>template_questions := links\<rparr>) =
     (case getAssessmentSession now tok stu s of
        (r, s') \<Rightarrow> (r, s'\<lparr>template_questions := links\<rparr>))"
  by (simp add: getAssessmentSession_def expireSession_def patch_session_status_def rest_get_def
      res_ok_def Let_def split: list.splits option.splits)

lemma validateAndScoreResponse_ignores_links:
  "validateAndScoreResponse question dto (s\<lparr>template_questions := links\<rparr>) =
   validateAndScoreResponse question dto s"
  by (simp add: validateAndScoreResponse_def cong: option.case_cong list.case_cong if_cong)

lemma post_response_ignores_links:
  "post_response row (s\<lparr>template_questions := links\<rparr>) =
     (case post_response row s of (r, s') \<Rightarrow> (r, s'\<lparr>template_questions := links\<rparr>))"
  by (simp add: post_response_def Let_def)

lemma submitResponse_ignores_links:
  "submitResponse now dto stu (s\<lparr>template_questions := links\<rparr>) =
     (case submitResponse now dto stu s of
        (r, s') \<Rightarrow> (r, s'\<lparr>template_questions := links\<rparr>))"
proof (cases "getAssessmentSession now (dto_session_token dto) stu s")
  case (Pair g s1)
  show ?thesis
  proof (cases g)
    case (Inl e)
    then show ?thesis using Pair
      by (simp add: submitResponse_def getAssessmentSession_ignores_links)
  next
    case (Inr v)
    then show ?thesis using Pair
      by (simp add: submitResponse_def getAssessmentSession_ignores_links
          validateAndScoreResponse_ignores_links post_response_ignores_links rest_get_def
          Let_def split: list.splits sum.splits prod.splits)
  qed
qed


lemma unknown_question:
  assumes "filter (\<lambda>q. q_id q = dto_question_id dto) (questions s) = []"
  shows "(\<exists>e. fst (submitResponse now dto stu s) = Inl e) \<and>
     responses (snd (submitResponse now dto stu s)) = responses s \<and>
     (\<forall>v. fst (getAssessmentSession now (dto_session_token dto) stu s) = Inr v \<and>
          status (sv_session v) = in_progress \<longrightarrow>
          fst (submitResponse now dto stu s) = Inl (NotFoundException ''Question not found''))"
proof -
  obtain r s' where c: "submitResponse now dto stu s = (r, s')"
    by (cases "submitResponse now dto stu s")
  from c have 1: "\<exists>e. r = Inl e \<and> responses s' = responses s"
    using assms by (cases rule: submitResponse_cases) auto
  have 2: "r = Inl (NotFoundException ''Question not found'')"
    if "fst (getAssessmentSession now (dto_session_token dto) stu s) = Inr v"
      and "status (sv_session v) = in_progress" for v
  proof -
    define sg where "sg = snd (getAssessmentSession now (dto_session_token dto) stu s)"
    have g: "getAssessmentSession now (dto_session_token dto) stu s = (Inr v, sg)"
      using that(1) by (simp add: sg_def prod_eq_iff)
    have "sg = s" using getAssessmentSession_Inr [OF g] by simp
    then show ?thesis using c g that(2) assms by (auto simp: submitResponse_def rest_get_def)
  qed
  show ?thesis using 1 2 c by auto
qed

lemmas submit_defs = submitResponse_def validateAndScoreResponse_def post_response_def
  or_null_def points_or_one_def dto_q1_def dto_q1_again_def dto_q3_def dto_q9_def dto_q2_def
  dto_q2_again_def response_q2_def response_q3_def null_alternates_store_def Let_def





lemma unknown_concrete:
  "filter (\<lambda>q. q_id q = dto_question_id dto_q9) (questions demo_store) = [] \<and>
   submitResponse 1000 dto_q9 ''alice'' demo_store =
     (Inl (NotFoundException ''Question not found''), demo_store)"
  by (simp add: submit_defs demo_defs service_defs)

lemma foreign_concrete:
  "fst (getAssessmentSession 1000 (dto_session_token dto_q3) ''alice'' demo_store) =
     Inr \<lparr>sv_session = session_alice, assessment_templates = Some template_T1,
          sv_responses = [], time_remaining = 1799, is_expired = False\<rparr> \<and>
   status session_alice = in_progress \<and>
   filter (\<lambda>q. q_id q = dto_question_id dto_q3) (questions demo_store) =
     [question_q1\<lparr>q_id := ''q3'', question_text := ''Define a function''\<rparr>] \<and>
   validateAndScoreResponse (question_q1\<lparr>q_id := ''q3'', question_text := ''Define a function''\<rparr>)
     dto_q3 demo_store = Inr (False, 0) \<and>
   \<not> list_ex (same_key (s_id session_alice) (dto_question_id dto_q3)) (responses demo_store) \<and>
   (''T1'', ''q3'') \<notin> set (template_questions demo_store)"
  by (simp add: submit_defs demo_defs service_defs same_key_def)

lemma foreign_saved:
  "(Inr \<lparr>response_id = length (responses demo_store), sr_is_correct = False,
         sr_points_earned = 0,
         sr_explanation = or_null (explanation
           (question_q1\<lparr>q_id := ''q3'', question_text := ''Define a function''\<rparr>)),
         sr_questions_answered = length ([] :: response_row list) + 1,
         sr_total_questions = total_questions session_alice,
         sr_time_remaining = 1799\<rparr>,
    demo_store\<lparr>responses := responses demo_store @
         [\<lparr>r_id = length (responses demo_store), r_session_id = s_id session_alice,
           r_question_id = dto_question_id dto_q3,
           selected_option_id = or_null (dto_selected_option_id dto_q3),
           text_answer = or_null (dto_text_answer dto_q3),
           r_is_correct = False, points_earned = 0,
           time_spent_seconds = dto_time_spent_seconds dto_q3, answered_at = 1000\<rparr>]\<rparr>) =
   (Inr \<lparr>response_id = 0, sr_is_correct = False, sr_points_earned = 0,
         sr_explanation = Some ''x = 10 is an assignment'', sr_questions_answered = 1,
         sr_total_questions = 2, sr_time_remaining = 1799\<rparr>,
    demo_store\<lparr>responses := [response_q3]\<rparr>)"
  by (simp add: submit_defs demo_defs)




text \<open>
  C5, as amended. A submission whose question id resolves to no question of the store
  is rejected and no response row is written; once the session is read and in progress
  the rejection is \<open>Question not found\<close>. A submission for a question that the store
  holds is accepted, and its row written, whenever the session is read and in progress,
  scoring the answer returns and the pair of session and question has no row yet:
  whether the question belongs to the template of the session is not looked at, and
  the outcome of a submission is the same whatever the links between templates and
  questions are.
\<close>

theorem question_membership_not_checked:
  "(filter (\<lambda>q. q_id q = dto_question_id dto) (questions s) = [] \<longrightarrow>
      (\<exists>e. fst (submitResponse now dto studentId s) = Inl e) \<and>
      responses (snd (submitResponse now dto studentId s)) = responses s \<and>
      (\<forall>v. fst (getAssessmentSession now (dto_session_token dto) studentId s) = Inr v \<and>
           status (sv_session v) = in_progress \<longrightarrow>
           fst (submitResponse now dto studentId s) =
             Inl (NotFoundException ''Question not found''))) \<and>
   (fst (getAssessmentSession now (dto_session_token dto) studentId s) = Inr v \<and>
    status (sv_session v) = in_progress \<and>
    filter (\<lambda>q. q_id q = dto_question_id dto) (questions s) = question # rest \<and>
    validateAndScoreResponse question dto s = Inr (isCorrect, pointsEarned) \<and>
    \<not> list_ex (same_key (s_id (sv_session v)) (dto_question_id dto)) (responses s) \<longrightarrow>
      submitResponse now dto studentId s =
        (Inr \<lparr>response_id = length (responses s), sr_is_correct = isCorrect,
              sr_points_earned = pointsEarned,
              sr_explanation = or_null (explanation question),
              sr_questions_answered = length (sv_responses v) + 1,
              sr_total_questions = total_questions (sv_session v),
              sr_time_remaining = time_remaining v\<rparr>,
         s\<lparr>responses := responses s @
              [\<lparr>r_id = length (responses s), r_session_id = s_id (sv_session v),
                r_question_id = dto_question_id dto,
                selected_option_id = or_null (dto_selected_option_id dto),
                text_answer = or_null (dto_text_answer dto),
                r_is_correct = isCorrect, points_earned = pointsEarned,
                time_spent_seconds = dto_time_spent_seconds dto, answered_at = now\<rparr>]\<rparr>)) \<and>
   submitResponse now dto studentId (s\<lparr>template_questions := links\<rparr>) =
     (case submitResponse now dto studentId s of
        (r, s') \<Rightarrow> (r, s'\<lparr>template_questions := links\<rparr>))"
proof (intro conjI impI)
  assume "filter (\<lambda>q. q_id q = dto_question_id dto) (questions s) = []"
  note u = unknown_question [OF this, of now studentId]
  show "\<exists>e. fst (submitResponse now dto studentId s) = Inl e" using u by blast
  show "responses (snd (submitResponse now dto studentId s)) = responses s" using u by blast
  show "\<forall>v. fst (getAssessmentSession now (dto_session_token dto) studentId s) = Inr v \<and>
           status (sv_session v) = in_progress \<longrightarrow>
           fst (submitResponse now dto studentId s) =
             Inl (NotFoundException ''Question not found'')" using u by blast
next
  assume a: "fst (getAssessmentSession now (dto_session_token dto) studentId s) = Inr v \<and>
    status (sv_session v) = in_progress \<and>
    filter (\<lambda>q. q_id q = dto_question_id dto) (questions s) = question # rest \<and>
    validateAndScoreResponse question dto s = Inr (isCorrect, pointsEarned) \<and>
    \<not> list_ex (same_key (s_id (sv_session v)) (dto_question_id dto)) (responses s)"
  show "submitResponse now dto studentId s =
        (Inr \<lparr>response_id = length (responses s), sr_is_correct = isCorrect,
              sr_points_earned = pointsEarned,
              sr_explanation = or_null (explanation question),
              sr_questions_answered = length (sv_responses v) + 1,
              sr_total_questions = total_questions (sv_session v),
              sr_time_remaining = time_remaining v\<rparr>,
         s\<lparr>responses := responses s @
              [\<lparr>r_id = length (responses s), r_session_id = s_id (sv_session v),
                r_question_id = dto_question_id dto,
                selected_option_id = or_null (dto_selected_option_id dto),
                text_answer = or_null (dto_text_answer dto),
                r_is_correct = isCorrect, points_earned = pointsEarned,
                time_spent_seconds = dto_time_spent_seconds dto, answered_at = now\<rparr>]\<rparr>)"
    using a by (intro submitResponse_accepts) simp_all
next
  show "submitResponse now dto studentId (s\<lparr>template_questions := links\<rparr>) =
     (case submitResponse now dto studentId s of
        (r, s') \<Rightarrow> (r, s'\<lparr>template_questions := links\<rparr>))"
    by (rule submitResponse_ignores_links)
qed

text \<open>
  Witness for C5: no question has the id \<open>q9\<close> and the submission for it is rejected;
  the submission for \<open>q3\<close>, a question of another template, is accepted.
\<close>

theorem question_membership_not_checked_witness:
  "filter (\<lambda>q. q_id q = dto_question_id dto_q9) (questions demo_store) = [] \<and>
   fst (submitResponse 1000 dto_q9 ''alice'' demo_store) =
     Inl (NotFoundException ''Question not found'') \<and>
   responses (snd (submitResponse 1000 dto_q9 ''alice'' demo_store)) = responses demo_store \<and>
   fst (getAssessmentSession 1000 (dto_session_token dto_q3) ''alice'' demo_store) =
     Inr \<lparr>sv_session = session_alice, assessment_templates = Some template_T1,
          sv_responses = [], time_remaining = 1799, is_expired = False\<rparr> \<and>
   status session_alice = in_progress \<and>
   filter (\<lambda>q. q_id q = dto_question_id dto_q3) (questions demo_store) =
     [question_q1\<lparr>q_id := ''q3'', question_text := ''Define a function''\<rparr>] \<and>
   validateAndScoreResponse (question_q1\<lparr>q_id := ''q3'', question_text := ''Define a function''\<rparr>)
     dto_q3 demo_store = Inr (False, 0) \<and>
   \<not> list_ex (same_key (s_id session_alice) (dto_question_id dto_q3)) (responses demo_store) \<and>
   (''T1'', ''q3'') \<notin> set (template_questions demo_store) \<and>
   submitResponse 1000 dto_q3 ''alice'' demo_store =
     (Inr \<lparr>response_id = 0, sr_is_correct = False, sr_points_earned = 0,
           sr_explanation = Some ''x = 10 is an assignment'', sr_questions_answered = 1,
           sr_total_questions = 2, sr_time_remaining = 1799\<rparr>,
      demo_store\<lparr>responses := [response_q3]\<rparr>)"
proof -
  note t9 = question_membership_not_checked
      [where dto = dto_q9 and s = demo_store and now = 1000 and studentId = "''alice''"]
  note t3 = question_membership_not_checked
      [where dto = dto_q3 and s = demo_store and now = 1000 and studentId = "''alice''"
         and v = "\<lparr>sv_session = session_alice, assessment_templates = Some template_T1,
                   sv_responses = [], time_remaining = 1799, is_expired = False\<rparr>"
         and question = "question_q1\<lparr>q_id := ''q3'', question_text := ''Define a function''\<rparr>"
         and rest = "[]" and isCorrect = False and pointsEarned = 0]
  have nine: "fst (submitResponse 1000 dto_q9 ''alice'' demo_store) =
       Inl (NotFoundException ''Question not found'') \<and>
     responses (snd (submitResponse 1000 dto_q9 ''alice'' demo_store)) = responses demo_store"
    using t9 unknown_concrete by simp
  have "submitResponse 1000 dto_q3 ''alice'' demo_store =
     (Inr \<lparr>response_id = length (responses demo_store), sr_is_correct = False,
         sr_points_earned = 0,
         sr_explanation = or_null (explanation
           (question_q1\<lparr>q_id := ''q3'', question_text := ''Define a function''\<rparr>)),
         sr_questions_answered = length ([] :: response_row list) + 1,
         sr_total_questions = total_questions session_alice,
         sr_time_remaining = 1799\<rparr>,
      demo_store\<lparr>responses := responses demo_store @
         [\<lparr>r_id = length (responses demo_store), r_session_id = s_id session_alice,
           r_question_id = dto_question_id dto_q3,
           selected_option_id = or_null (dto_selected_option_id dto_q3),
           text_answer = or_null (dto_text_answer dto_q3),
           r_is_correct = False, points_earned = 0,
           time_spent_seconds = dto_time_spent_seconds dto_q3, answered_at = 1000\<rparr>]\<rparr>)"
    using t3 foreign_concrete by simp
  also note foreign_saved
  finally have three: "submitResponse 1000 dto_q3 ''alice'' demo_store =
     (Inr \<lparr>response_id = 0, sr_is_correct = False, sr_points_earned = 0,
           sr_explanation = Some ''x = 10 is an assignment'', sr_questions_answered = 1,
           sr_total_questions = 2, sr_time_remaining = 1799\<rparr>,
      demo_store\<lparr>responses := [response_q3]\<rparr>)" .
  show ?thesis using nine three unknown_concrete foreign_concrete by simp
qed

text \<open>
  Counterexample to C5 as stated: Alice's session is on template \<open>T1\<close> and question \<open>q3\<close>
  belongs to template \<open>T2\<close> only; her submission for \<open>q3\<close> is accepted and a response
  row for \<open>q3\<close> is written.
\<close>

theorem foreign_question_accepted:
  "(''T1'', ''q3'') \<notin> set (template_questions demo_store) \<and>
   template_id session_alice = ''T1'' \<and>
   fst (submitResponse 1000 dto_q3 ''alice'' demo_store) =
     Inr \<lparr>response_id = 0, sr_is_correct = False, sr_points_earned = 0,
          sr_explanation = Some ''x = 10 is an assignment'', sr_questions_answered = 1,
          sr_total_questions = 2, sr_time_remaining = 1799\<rparr> \<and>
   map r_question_id (responses (snd (submitResponse 1000 dto_q3 ''alice'' demo_store))) =
     [''q3'']"
  by (simp add: submit_defs demo_defs service_defs)

section \<open>Student-facing payloads: properties\<close>

text \<open>
  The options that \<open>prepareQuestionOptions\<close> returns and the questions that
  \<open>startAssessment\<close> returns do not depend on the correctness flags, on the
  explanations of the options or on the explanation of the question.
\<close>

lemma prepareQuestionOptions_hides:
  "prepareQuestionOptions pick (map hide_option opts) randomize =
   prepareQuestionOptions pick opts randomize"
  by (simp add: prepareQuestionOptions_def hide_option_def comp_def)

lemma start_questions_hides:
  "start_questions rand randomize (map hide_question qs) = start_questions rand randomize qs"
  by (simp add: start_questions_def zip_map1 comp_def split_beta hide_question_def
      prepareQuestionOptions_hides)

text \<open>
  C6. The payload of \<open>getQuestionForSession\<close> carries the explanation of the question:
  for Alice's question \<open>q1\<close> it holds \<open>x = 10 is an assignment\<close>, and it changes when the
  explanation stored for the question changes.
\<close>

theorem question_payload_reveals_explanation:
  "(case fst (getQuestionForSession 1000 (\<lambda>i. 0) ''tok1'' ''q1'' ''alice'' demo_store) of
      Inl e \<Rightarrow> None
    | Inr p \<Rightarrow> explanation (qp_question p)) = Some ''x = 10 is an assignment'' \<and>
   fst (getQuestionForSession 1000 (\<lambda>i. 0) ''tok1'' ''q1'' ''alice''
          (demo_store\<lparr>questions := map (\<lambda>q. q\<lparr>explanation := None\<rparr>) (questions demo_store)\<rparr>)) \<noteq>
   fst (getQuestionForSession 1000 (\<lambda>i. 0) ''tok1'' ''q1'' ''alice'' demo_store)"
  by (simp add: getQuestionForSession_def prepareQuestionOptions_def shuffled_of_def
      shuffleArray_def demo_defs service_defs Let_def numeral_2_eq_2)

end
